theory Spec2Isabelle
  imports Complex_Main "HOL-Library.Word"
begin

section \<open>The video ingestion pipeline of the upload handlers\<close>

text \<open>
  The Go sources define \<^verbatim>\<open>handlerUploadVideo\<close> and its helpers
  \<^verbatim>\<open>generatePresignedURL\<close>, \<^verbatim>\<open>dbVideoToSignedVideo\<close>,
  \<^verbatim>\<open>processVideoForFastStart\<close> and \<^verbatim>\<open>getVideoAspectRatio\<close>.
  The handler talks to collaborators whose answers it cannot control (the UUID parser, the
  auth library, the metadata store, the MIME parser, the operating system, ffprobe, ffmpeg,
  the random source and S3). Their answers are the fields of the record \<open>env\<close>; what the
  handler changes in the outside world is the record \<open>world\<close>: the local files, and the
  list of the changes made, oldest first.
\<close>

subsection \<open>IEEE 754 binary64 rounding\<close>

text \<open>
  \<^verbatim>\<open>float64(width) / float64(height)\<close> is computed in binary64: the conversion of a
  Go \<^verbatim>\<open>int\<close> and the division are each rounded to the nearest value with a 53 bit
  significand, ties to the even significand, and a constant such as \<^verbatim>\<open>1.7\<close> is the
  binary64 value nearest to the decimal. Every number met here (a 64 bit integer, a quotient
  of two of them, the four thresholds) lies in the normal range of binary64, so the exponent
  is left unbounded. A binary64 value is represented by the rational number it denotes.
\<close>

fun bitlen :: "nat \<Rightarrow> nat" where
  "bitlen n = (if n = 0 then 0 else Suc (bitlen (n div 2)))"

declare bitlen.simps [simp del]

definition exponent :: "rat \<Rightarrow> int" where
  \<comment> \<open>for \<open>0 < x\<close>, the \<open>e\<close> with \<open>2 ^ e \<le> x < 2 ^ (e + 1)\<close>\<close>
  "exponent x =
     (if 1 \<le> x then int (bitlen (nat \<lfloor>x\<rfloor>)) - 1
      else - int (bitlen (nat (\<lceil>1 / x\<rceil> - 1))))"

definition round_half_even :: "rat \<Rightarrow> int" where
  "round_half_even x =
     (let f = \<lfloor>x\<rfloor>; r = x - of_int f
      in if r < 1 / 2 then f
         else if 1 / 2 < r then f + 1
         else if even f then f else f + 1)"

definition float64 :: "rat \<Rightarrow> rat" where
  "float64 x =
     (if x = 0 then 0
      else let u = 2 powi (exponent \<bar>x\<bar> - 52)
           in sgn x * of_int (round_half_even (\<bar>x\<bar> / u)) * u)"

subsection \<open>Data\<close>

type_synonym bytes = "char list"

type_synonym uuid = "128 word"

text \<open>
  \<^verbatim>\<open>database.Video\<close> is declared in \<^verbatim>\<open>internal/database\<close>; these are the
  fields the handlers read and write. A \<^verbatim>\<open>*string\<close> is a \<open>string option\<close>,
  \<^verbatim>\<open>nil\<close> being \<open>None\<close>.
\<close>

record video =
  ID :: uuid
  UserID :: uuid
  VideoURL :: "string option"
  ThumbnailURL :: "string option"

record apiConfig =
  jwtSecret :: string
  s3Bucket :: string

text \<open>One part of a multipart form: the field name, the file's bytes, and the part's
  \<^verbatim>\<open>Content-Type\<close> header (empty when the part has none).\<close>

type_synonym part = "string \<times> bytes \<times> string"

text \<open>
  A request: the path value \<open>videoID\<close>, the headers, and the body. Of the body the model
  keeps its length in bytes (\<open>bodyLength\<close>), the multipart form it holds (\<open>form\<close>, \<open>None\<close>
  when the body is not a multipart form), and the number of bytes of the body that the
  multipart reader reads (\<open>formLength\<close>): the form from the start of the body to the end of
  its closing boundary (the preamble, the boundaries, the part headers and the part
  contents), with what the reader's buffer has taken beyond it. The rest of the body,
  \<open>bodyLength\<close> less \<open>formLength\<close> bytes, is never read. \<open>bodyLimit\<close> is the limit
  \<^verbatim>\<open>http.MaxBytesReader\<close> has put on the body, if any.
\<close>

record request =
  PathValue_videoID :: string
  Header :: "(string \<times> string) list"
  bodyLength :: nat
  formLength :: nat
  bodyLimit :: "nat option"
  form :: "part list option"

text \<open>The struct \<^verbatim>\<open>FFProbeOutput\<close>: a list of streams, each with a width and a height.\<close>

record stream =
  Width :: int
  Height :: int

type_synonym FFProbeOutput = "stream list"

text \<open>
  One run of ffmpeg: it exits with status 0 and has written the output file, or it exits
  with an error and may have written part of the output file before.
\<close>

datatype ffmpeg_run = Finished bytes | Aborted "bytes option"

datatype error =
  FfprobeRunFailed
  | FfprobeOutputUnparsable
  | NoStreamsFound
  | InvalidDimensions int int
  | FfmpegFailed
  | InvalidVideoURLFormat string
  | PresignFailed

text \<open>
  The answers of the collaborators in one call. \<open>None\<close> is a failed call (a Go error), but
  for \<open>Copy\<close>, where \<open>None\<close> is a complete copy and \<open>Some n\<close> a copy that failed after \<open>n\<close>
  bytes; \<open>False\<close> is a failed call for \<open>Open\<close>, \<open>Seek\<close>, \<open>PutObject\<close> and
  \<open>UpdateVideo\<close>. \<open>ffprobe\<close> and \<open>ffmpeg\<close> get the bytes of the file at the path they are
  run on (\<open>None\<close> when there is no such file); \<open>ffprobe\<close> answers what the command writes
  to its standard output, which \<open>json_Unmarshal\<close> decodes. \<open>rand_Read n\<close> fills a buffer of
  \<open>n\<close> bytes, and \<open>EncodeToString\<close> is \<^verbatim>\<open>base64.RawURLEncoding.EncodeToString\<close>.
\<close>

record env =
  uuid_Parse :: "string \<Rightarrow> uuid option"
  GetBearerToken :: "(string \<times> string) list \<Rightarrow> string option"
  ValidateJWT :: "string \<Rightarrow> string \<Rightarrow> uuid option"
  GetVideo :: "uuid \<Rightarrow> video option"
  ParseMediaType :: "string \<Rightarrow> string option"
  CreateTemp :: "string option"
  Copy :: "bytes \<Rightarrow> nat option"
  ffprobe :: "bytes option \<Rightarrow> string option"
  json_Unmarshal :: "string \<Rightarrow> FFProbeOutput option"
  ffmpeg :: "bytes option \<Rightarrow> ffmpeg_run"
  Open :: "string \<Rightarrow> bool"
  Seek :: bool
  rand_Read :: "nat \<Rightarrow> bytes option"
  EncodeToString :: "bytes \<Rightarrow> string"
  PutObject :: "string \<Rightarrow> string \<Rightarrow> bytes \<Rightarrow> string \<Rightarrow> bool"
  UpdateVideo :: "video \<Rightarrow> bool"
  PresignGetObject :: "string \<Rightarrow> string \<Rightarrow> nat \<Rightarrow> string option"

text \<open>
  What a call changes outside the handler: the temporary file created, bytes written to a
  file (by \<^verbatim>\<open>io.Copy\<close> or by ffmpeg), a file removed, an object put into the bucket
  (bucket, key, body, content type), the record updated in the metadata store. Only a change
  that took place is recorded: a failed \<open>PutObject\<close> or \<open>UpdateVideo\<close> leaves no effect.
\<close>

datatype effect =
  TempCreated string
  | FileWritten string bytes
  | FileRemoved string
  | ObjectPut string string bytes string
  | VideoUpdated video

record world =
  files :: "string \<rightharpoonup> bytes"
  effects :: "effect list"

text \<open>
  \<^verbatim>\<open>respondWithError\<close> and \<^verbatim>\<open>respondWithJSON\<close> are defined elsewhere in the
  package; a response is the call the handler makes, with the status code and the message or
  the payload it passes (the Go error passed along for logging is left out).
\<close>

datatype response = respondWithError nat string | respondWithJSON nat video

fun statusCode :: "response \<Rightarrow> nat" where
  "statusCode (respondWithError code msg) = code"
| "statusCode (respondWithJSON code payload) = code"

abbreviation StatusOK :: nat where "StatusOK \<equiv> 200"
abbreviation StatusBadRequest :: nat where "StatusBadRequest \<equiv> 400"
abbreviation StatusUnauthorized :: nat where "StatusUnauthorized \<equiv> 401"
abbreviation StatusForbidden :: nat where "StatusForbidden \<equiv> 403"
abbreviation StatusRequestEntityTooLarge :: nat where "StatusRequestEntityTooLarge \<equiv> 413"
abbreviation StatusUnsupportedMediaType :: nat where "StatusUnsupportedMediaType \<equiv> 415"
abbreviation StatusInternalServerError :: nat where "StatusInternalServerError \<equiv> 500"

abbreviation Hour :: nat where "Hour \<equiv> 3600"

subsection \<open>Library calls\<close>

text \<open>\<^verbatim>\<open>strings.Split(s, sep)\<close> for a separator of one byte: the substrings between
  the separators, one more than there are separators.\<close>

fun Split :: "string \<Rightarrow> char \<Rightarrow> string list" where
  "Split [] sep = [[]]"
| "Split (c # s) sep =
     (if c = sep then [] # Split s sep
      else (case Split s sep of [] \<Rightarrow> [[c]] | p # ps \<Rightarrow> (c # p) # ps))"

text \<open>
  \<^verbatim>\<open>http.MaxBytesReader\<close> wraps the body: a read that goes past the limit fails, and
  nothing fails before such a read. \<^verbatim>\<open>ParseMultipartForm\<close> reads the body up to the
  closing boundary of the form and no further. It therefore fails when the form itself is
  longer than the limit, or when the body is not a multipart form; bytes after the closing
  boundary do not make it fail, however many they are.
\<close>

definition MaxBytesReader :: "request \<Rightarrow> nat \<Rightarrow> request" where
  "MaxBytesReader r n = r\<lparr>bodyLimit := Some n\<rparr>"

definition ParseMultipartForm :: "request \<Rightarrow> part list option" where
  "ParseMultipartForm r =
     (case bodyLimit r of
        None \<Rightarrow> form r
      | Some n \<Rightarrow> if n < formLength r then None else form r)"

definition FormFile :: "part list \<Rightarrow> string \<Rightarrow> (bytes \<times> string) option" where
  "FormFile parts name = map_of parts name"

definition os_Remove :: "string \<Rightarrow> world \<Rightarrow> world" where
  "os_Remove name w =
     w\<lparr>files := (files w)(name := None), effects := effects w @ [FileRemoved name]\<rparr>"

definition os_Open :: "env \<Rightarrow> world \<Rightarrow> string \<Rightarrow> bytes option" where
  "os_Open e w name =
     (case files w name of None \<Rightarrow> None | Some c \<Rightarrow> if Open e name then Some c else None)"

subsection \<open>The helpers\<close>

definition generatePresignedURL :: "env \<Rightarrow> string \<Rightarrow> string \<Rightarrow> nat \<Rightarrow> error + string" where
  "generatePresignedURL e bucket key expireTime =
     (case PresignGetObject e bucket key expireTime of
        None \<Rightarrow> Inl PresignFailed
      | Some url \<Rightarrow> Inr url)"

text \<open>Go returns the pair \<^verbatim>\<open>(database.Video, error)\<close>; the error is \<open>None\<close> for
  \<^verbatim>\<open>nil\<close>.\<close>

definition dbVideoToSignedVideo :: "env \<Rightarrow> video \<Rightarrow> video \<times> error option" where
  "dbVideoToSignedVideo e v =
     (if VideoURL v = None \<or> VideoURL v = Some [] then (v, None)
      else case VideoURL v of
        None \<Rightarrow> (v, None)
      | Some url \<Rightarrow>
          (case Split url (CHR '','') of
             [bucket, key] \<Rightarrow>
               (case generatePresignedURL e bucket key Hour of
                  Inl err \<Rightarrow> (v, Some err)
                | Inr presignedURL \<Rightarrow> (v\<lparr>VideoURL := Some presignedURL\<rparr>, None))
           | _ \<Rightarrow> (v, Some (InvalidVideoURLFormat url))))"

definition processVideoForFastStart :: "env \<Rightarrow> world \<Rightarrow> string \<Rightarrow> world \<times> (error + string)" where
  "processVideoForFastStart e w filePath =
     (let outputPath = filePath @ ''.processing''
      in case ffmpeg e (files w filePath) of
           Finished out \<Rightarrow>
             (w\<lparr>files := (files w)(outputPath \<mapsto> out),
                effects := effects w @ [FileWritten outputPath out]\<rparr>, Inr outputPath)
         | Aborted None \<Rightarrow> (w, Inl FfmpegFailed)
         | Aborted (Some out) \<Rightarrow>
             (w\<lparr>files := (files w)(outputPath \<mapsto> out),
                effects := effects w @ [FileWritten outputPath out]\<rparr>, Inl FfmpegFailed))"

definition getVideoAspectRatio :: "env \<Rightarrow> world \<Rightarrow> string \<Rightarrow> error + string" where
  "getVideoAspectRatio e w filePath =
     (case ffprobe e (files w filePath) of
        None \<Rightarrow> Inl FfprobeRunFailed
      | Some stdout \<Rightarrow>
          (case json_Unmarshal e stdout of
             None \<Rightarrow> Inl FfprobeOutputUnparsable
           | Some output \<Rightarrow>
               (case output of
                  [] \<Rightarrow> Inl NoStreamsFound
                | s # _ \<Rightarrow>
                    (let width = Width s; height = Height s
                     in if width = 0 \<or> height = 0 then Inl (InvalidDimensions width height)
                        else let ratio = float64 (float64 (of_int width) / float64 (of_int height))
                             in if float64 (17 / 10) \<le> ratio \<and> ratio \<le> float64 (18 / 10)
                                then Inr ''16:9''
                                else if float64 (55 / 100) \<le> ratio \<and> ratio \<le> float64 (58 / 100)
                                then Inr ''9:16''
                                else Inr ''other''))))"

subsection \<open>The handler\<close>

text \<open>
  A deferred call runs when the handler returns, the last deferred first. The handler is
  therefore cut where it defers a removal: \<open>handlerUploadVideo_processed\<close> is what runs
  after \<^verbatim>\<open>defer os.Remove(processedFilePath)\<close>, \<open>handlerUploadVideo_staged\<close> what
  runs after \<^verbatim>\<open>defer os.Remove(tempFile.Name())\<close>, and each caller removes the file
  once the rest has returned. The deferred \<^verbatim>\<open>Close\<close> calls change nothing here.
\<close>

text \<open>The \<^verbatim>\<open>switch aspectRatio\<close> that chooses the key's prefix.\<close>

definition keyPrefix :: "string \<Rightarrow> string" where
  "keyPrefix aspectRatio =
     (if aspectRatio = ''16:9'' then ''landscape''
      else if aspectRatio = ''9:16'' then ''portrait''
      else ''other'')"

definition handlerUploadVideo_processed ::
  "apiConfig \<Rightarrow> env \<Rightarrow> video \<Rightarrow> string \<Rightarrow> string \<Rightarrow> string \<Rightarrow> world \<Rightarrow> world \<times> response" where
  "handlerUploadVideo_processed cfg e v mediaType aspectRatio processedFilePath w =
     (case os_Open e w processedFilePath of
        None \<Rightarrow> (w, respondWithError StatusInternalServerError ''Couldn't open processed file'')
      | Some processedFile \<Rightarrow>
          (let prefix = keyPrefix aspectRatio
           in if \<not> Seek e
              then (w, respondWithError StatusInternalServerError ''Couldn't reset file pointer'')
              else case rand_Read e 32 of
                None \<Rightarrow> (w, respondWithError StatusInternalServerError ''Couldn't generate random key'')
              | Some randomBytes \<Rightarrow>
                  (let randomString = EncodeToString e randomBytes;
                       s3Key = prefix @ ''/'' @ randomString @ ''.mp4''
                   in if \<not> PutObject e (s3Bucket cfg) s3Key processedFile mediaType
                      then (w, respondWithError StatusInternalServerError ''Couldn't upload to S3'')
                      else let w1 = w\<lparr>effects := effects w @
                                      [ObjectPut (s3Bucket cfg) s3Key processedFile mediaType]\<rparr>;
                               videoURL = s3Bucket cfg @ '','' @ s3Key;
                               v1 = v\<lparr>VideoURL := Some videoURL\<rparr>
                           in if \<not> UpdateVideo e v1
                              then (w1, respondWithError StatusInternalServerError ''Couldn't update video'')
                              else let w2 = w1\<lparr>effects := effects w1 @ [VideoUpdated v1]\<rparr>
                                   in case dbVideoToSignedVideo e v1 of
                                        (signedVideo, Some err) \<Rightarrow>
                                          (w2, respondWithError StatusInternalServerError
                                                 ''Couldn't generate presigned URL'')
                                      | (signedVideo, None) \<Rightarrow>
                                          (w2, respondWithJSON StatusOK signedVideo))))"

definition handlerUploadVideo_staged ::
  "apiConfig \<Rightarrow> env \<Rightarrow> video \<Rightarrow> string \<Rightarrow> bytes \<Rightarrow> string \<Rightarrow> world \<Rightarrow> world \<times> response" where
  "handlerUploadVideo_staged cfg e v mediaType file tempName w =
     (case Copy e file of
        Some n \<Rightarrow>
          (w\<lparr>files := (files w)(tempName \<mapsto> take n file),
             effects := effects w @ [FileWritten tempName (take n file)]\<rparr>,
           respondWithError StatusInternalServerError ''Couldn't write to temporary file'')
      | None \<Rightarrow>
          (let w1 = w\<lparr>files := (files w)(tempName \<mapsto> file),
                      effects := effects w @ [FileWritten tempName file]\<rparr>
           in case getVideoAspectRatio e w1 tempName of
                Inl err \<Rightarrow>
                  (w1, respondWithError StatusInternalServerError
                         ''Couldn't determine video aspect ratio'')
              | Inr aspectRatio \<Rightarrow>
                  (case processVideoForFastStart e w1 tempName of
                     (w2, Inl err) \<Rightarrow>
                       (w2, respondWithError StatusInternalServerError
                              ''Couldn't process video for fast start'')
                   | (w2, Inr processedFilePath) \<Rightarrow>
                       (let (w3, resp) =
                              handlerUploadVideo_processed cfg e v mediaType aspectRatio
                                processedFilePath w2
                        in (os_Remove processedFilePath w3, resp)))))"

definition handlerUploadVideo :: "apiConfig \<Rightarrow> env \<Rightarrow> request \<Rightarrow> world \<Rightarrow> world \<times> response" where
  "handlerUploadVideo cfg e r0 w =
     (let r = MaxBytesReader r0 (2 ^ 30)
      in case uuid_Parse e (PathValue_videoID r) of
        None \<Rightarrow> (w, respondWithError StatusBadRequest ''Invalid video ID'')
      | Some videoID \<Rightarrow>
      (case GetBearerToken e (Header r) of
        None \<Rightarrow> (w, respondWithError StatusUnauthorized ''Couldn't find JWT'')
      | Some token \<Rightarrow>
      (case ValidateJWT e token (jwtSecret cfg) of
        None \<Rightarrow> (w, respondWithError StatusUnauthorized ''Couldn't validate JWT'')
      | Some userID \<Rightarrow>
      (case GetVideo e videoID of
        None \<Rightarrow> (w, respondWithError StatusInternalServerError ''Couldn't get video'')
      | Some v \<Rightarrow>
      if UserID v \<noteq> userID
      then (w, respondWithError StatusUnauthorized ''User not authorized to update this video'')
      else
      (case ParseMultipartForm r of
        None \<Rightarrow> (w, respondWithError StatusBadRequest ''Couldn't parse form'')
      | Some parts \<Rightarrow>
      (case FormFile parts ''video'' of
        None \<Rightarrow> (w, respondWithError StatusBadRequest ''Couldn't get video file from form'')
      | Some (file, contentType) \<Rightarrow>
      (case ParseMediaType e contentType of
        None \<Rightarrow> (w, respondWithError StatusBadRequest ''Invalid Content-Type header'')
      | Some mediaType \<Rightarrow>
      if mediaType \<noteq> ''video/mp4''
      then (w, respondWithError StatusBadRequest
                 ''Invalid file type. Only MP4 videos are allowed'')
      else
      (case CreateTemp e of
        None \<Rightarrow> (w, respondWithError StatusInternalServerError ''Couldn't create temporary file'')
      | Some tempName \<Rightarrow>
          (let w1 = w\<lparr>files := (files w)(tempName \<mapsto> []),
                      effects := effects w @ [TempCreated tempName]\<rparr>;
               (w2, resp) = handlerUploadVideo_staged cfg e v mediaType file tempName w1
           in (os_Remove tempName w2, resp))))))))))"

subsection \<open>Sample inputs\<close>

text \<open>
  A configuration, a stored record owned by user 1, a request by that user, and collaborators
  that all succeed on a 1280 by 720 upload. The concrete executions below start from these
  and change one answer at a time.
\<close>

definition sample_cfg :: apiConfig where
  "sample_cfg = \<lparr>jwtSecret = ''secret'', s3Bucket = ''tubely''\<rparr>"

definition sample_video :: video where
  "sample_video = \<lparr>ID = 7, UserID = 1, VideoURL = None, ThumbnailURL = None\<rparr>"

definition sample_env :: env where
  "sample_env =
     \<lparr>uuid_Parse = (\<lambda>s. if s = ''00000000-0000-0000-0000-000000000007'' then Some 7 else None),
      GetBearerToken = (\<lambda>h. case map_of h ''Authorization'' of
                               None \<Rightarrow> None
                             | Some a \<Rightarrow> if take 7 a = ''Bearer '' then Some (drop 7 a) else None),
      ValidateJWT = (\<lambda>token secret.
                       if secret \<noteq> ''secret'' then None
                       else if token = ''alice'' then Some 1
                       else if token = ''bob'' then Some 2
                       else None),
      GetVideo = (\<lambda>videoID. if videoID = 7 then Some sample_video else None),
      ParseMediaType = (\<lambda>s. if s = [] then None else Some (takeWhile (\<lambda>c. c \<noteq> CHR '';'') s)),
      CreateTemp = Some ''/tmp/tubely-upload.mp4123456'',
      Copy = (\<lambda>file. None),
      ffprobe = (\<lambda>f. case f of None \<Rightarrow> None | Some c \<Rightarrow> Some ''1280x720''),
      json_Unmarshal = (\<lambda>s. if s = ''1280x720'' then Some [\<lparr>Width = 1280, Height = 720\<rparr>]
                              else None),
      ffmpeg = (\<lambda>f. case f of None \<Rightarrow> Aborted None | Some c \<Rightarrow> Finished (''moov'' @ c)),
      Open = (\<lambda>name. True),
      Seek = True,
      rand_Read = (\<lambda>n. Some ''0123456789abcdef0123456789abcdef''),
      EncodeToString = (\<lambda>b. ''MDEyMzQ1Njc4OWFiY2RlZjAxMjM0NTY3ODlhYmNkZWY''),
      PutObject = (\<lambda>bucket key body contentType. True),
      UpdateVideo = (\<lambda>v. True),
      PresignGetObject = (\<lambda>bucket key expires.
                            Some (''https://'' @ bucket @ ''.s3.amazonaws.com/'' @ key @ ''?X-Amz-Expires=3600''))\<rparr>"

definition sample_request :: request where
  "sample_request =
     \<lparr>PathValue_videoID = ''00000000-0000-0000-0000-000000000007'',
      Header = [(''Authorization'', ''Bearer alice'')],
      bodyLength = 4096,
      formLength = 4096,
      bodyLimit = None,
      form = Some [(''video'', ''mdat'', ''video/mp4'')]\<rparr>"

definition sample_world :: world where
  "sample_world = \<lparr>files = Map.empty, effects = []\<rparr>"

section \<open>Properties of the binary64 rounding\<close>

lemma bitlen_upper: "n < 2 ^ bitlen n"
proof (induction n rule: bitlen.induct)
  case (1 n)
  show ?case
  proof (cases "n = 0")
    case True
    then show ?thesis by (simp add: bitlen.simps)
  next
    case False
    with 1 have "n div 2 < 2 ^ bitlen (n div 2)" by simp
    then have "n < 2 * 2 ^ bitlen (n div 2)" by linarith
    with False show ?thesis by (subst bitlen.simps) simp
  qed
qed

lemma bitlen_lower: "0 < n \<Longrightarrow> 2 ^ (bitlen n - 1) \<le> n"
proof (induction n rule: bitlen.induct)
  case (1 n)
  show ?case
  proof (cases "n div 2 = 0")
    case True
    with 1(2) have "n = 1" by (simp add: div_eq_0_iff) 
    then show ?thesis by (simp add: bitlen.simps)
  next
    case False
    with 1 have ih: "2 ^ (bitlen (n div 2) - 1) \<le> n div 2" by simp
    from False have pos: "0 < bitlen (n div 2)" by (subst bitlen.simps) simp
    have "bitlen n = Suc (bitlen (n div 2))" using 1(2) by (subst bitlen.simps) simp
    then have "(2::nat) ^ (bitlen n - 1) = 2 * 2 ^ (bitlen (n div 2) - 1)"
      using pos by (cases "bitlen (n div 2)") simp_all
    also have "\<dots> \<le> 2 * (n div 2)" using ih by simp
    also have "\<dots> \<le> n" by simp
    finally show ?thesis .
  qed
qed

lemma bitlen_pos: "0 < n \<Longrightarrow> 0 < bitlen n"
  by (subst bitlen.simps) simp

lemma exponent_bounds:
  assumes "0 < x"
  shows "2 powi (exponent x) \<le> x" and "x < 2 powi (exponent x + 1)"
proof -
  show "2 powi (exponent x) \<le> x"
  proof (cases "1 \<le> x")
    case True
    define n where "n = nat \<lfloor>x\<rfloor>"
    have npos: "0 < n" using True by (simp add: n_def)
    have e: "exponent x = int (bitlen n - 1)"
      using True bitlen_pos[OF npos] by (simp add: exponent_def n_def)
    have "(2::rat) powi (exponent x) = of_nat (2 ^ (bitlen n - 1))"
      by (simp add: e)
    also have "\<dots> \<le> of_nat n" using bitlen_lower[OF npos] by (simp only: of_nat_le_iff)
    also have "\<dots> = of_int (int n)" by simp
    also have "\<dots> = of_int \<lfloor>x\<rfloor>" using True by (simp add: n_def)
    also have "\<dots> \<le> x" by simp
    finally show ?thesis .
  next
    case False
    define m where "m = nat (\<lceil>1 / x\<rceil> - 1)"
    have e: "exponent x = - int (bitlen m)" using False by (simp add: exponent_def m_def)
    have y: "1 < 1 / x" using False assms by simp
    then have c: "2 \<le> \<lceil>1 / x\<rceil>" by (smt (verit) less_ceiling_iff of_int_1)
    have "1 / x \<le> of_int \<lceil>1 / x\<rceil>" by simp
    also have "\<dots> = of_int (int (m + 1))"
    proof -
      have "int (m + 1) = \<lceil>1 / x\<rceil>" unfolding m_def using c by linarith
      then show ?thesis by (simp only:)
    qed
    also have "\<dots> = of_nat (m + 1)" by (simp only: of_int_of_nat_eq)
    also have "\<dots> \<le> of_nat (2 ^ bitlen m)" 
    proof -
      have "m + 1 \<le> 2 ^ bitlen m" using bitlen_upper[of m] by simp
      then show ?thesis by (simp only: of_nat_le_iff)
    qed
    finally have "1 / x \<le> 2 ^ bitlen m" by simp
    then have "1 \<le> 2 ^ bitlen m * x" using assms by (simp add: field_simps)
    then have "1 / 2 ^ bitlen m \<le> x" by (simp add: field_simps)
    then show ?thesis by (simp add: e power_int_minus field_simps)
  qed
  show "x < 2 powi (exponent x + 1)"
  proof (cases "1 \<le> x")
    case True
    define n where "n = nat \<lfloor>x\<rfloor>"
    have npos: "0 < n" using True by (simp add: n_def)
    have e: "exponent x + 1 = int (bitlen n)"
      using True bitlen_pos[OF npos] by (simp add: exponent_def n_def)
    have "x < of_int (\<lfloor>x\<rfloor> + 1)" by linarith
    also have "\<dots> = of_int (int (n + 1))" using True by (simp add: n_def)
    also have "\<dots> = of_nat (n + 1)" by (simp only: of_int_of_nat_eq)
    also have "\<dots> \<le> of_nat (2 ^ bitlen n)"
    proof -
      have "n + 1 \<le> 2 ^ bitlen n" using bitlen_upper[of n] by simp
      then show ?thesis by (simp only: of_nat_le_iff)
    qed
    also have "\<dots> = 2 powi (exponent x + 1)" by (simp add: e)
    finally show ?thesis .
  next
    case False
    define m where "m = nat (\<lceil>1 / x\<rceil> - 1)"
    have e: "exponent x = - int (bitlen m)" using False by (simp add: exponent_def m_def)
    have y: "1 < 1 / x" using False assms by simp
    then have c: "2 \<le> \<lceil>1 / x\<rceil>" by (smt (verit) less_ceiling_iff of_int_1)
    then have mpos: "0 < m" unfolding m_def by linarith
    have "of_nat (2 ^ (bitlen m - 1)) \<le> (of_nat m :: rat)"
      using bitlen_lower[OF mpos] by (simp only: of_nat_le_iff)
    also have "\<dots> = of_int (int m)" by simp
    also have "\<dots> = of_int (\<lceil>1 / x\<rceil> - 1)"
    proof -
      have "int m = \<lceil>1 / x\<rceil> - 1" unfolding m_def using c by linarith
      then show ?thesis by (simp only:)
    qed
    also have "\<dots> < 1 / x" by linarith
    finally have "2 ^ (bitlen m - 1) < 1 / x" by simp
    then have "2 ^ (bitlen m - 1) * x < 1" using assms by (simp add: field_simps)
    then have "x < 1 / 2 ^ (bitlen m - 1)" by (simp add: field_simps)
    moreover have "exponent x + 1 = - int (bitlen m - 1)"
      using bitlen_pos[OF mpos] by (simp add: e)
    ultimately show ?thesis by (simp add: power_int_minus field_simps)
  qed
qed

lemma powi2_less_imp: "(2::rat) powi a < 2 powi b \<Longrightarrow> a < b"
  using power_int_increasing[of b a "2::rat"] by (cases "a < b") auto

lemma exponent_unique:
  assumes "0 < x" "2 powi e \<le> x" "x < 2 powi (e + 1)"
  shows "exponent x = e"
proof -
  have "(2::rat) powi exponent x < 2 powi (e + 1)"
    using exponent_bounds(1)[OF assms(1)] assms(3) by simp
  then have "exponent x < e + 1" by (rule powi2_less_imp)
  moreover have "(2::rat) powi e < 2 powi (exponent x + 1)"
    using exponent_bounds(2)[OF assms(1)] assms(2) by simp
  then have "e < exponent x + 1" by (rule powi2_less_imp)
  ultimately show ?thesis by simp
qed

lemma exponent_mono:
  assumes "0 < x" "x \<le> y"
  shows "exponent x \<le> exponent y"
proof -
  have "0 < y" using assms by simp
  have "(2::rat) powi exponent x < 2 powi (exponent y + 1)"
    using exponent_bounds(1)[OF assms(1)] exponent_bounds(2)[OF \<open>0 < y\<close>] assms(2) by simp
  then have "exponent x < exponent y + 1" by (rule powi2_less_imp)
  then show ?thesis by simp
qed

lemma round_half_even_of_int: "round_half_even (of_int k) = k"
  by (simp add: round_half_even_def)

lemma round_half_even_bounds:
  "\<lfloor>x\<rfloor> \<le> round_half_even x" "round_half_even x \<le> \<lfloor>x\<rfloor> + 1"
  by (simp_all add: round_half_even_def Let_def)

lemma round_half_even_mono:
  assumes "x \<le> y"
  shows "round_half_even x \<le> round_half_even y"
proof (cases "\<lfloor>x\<rfloor> < \<lfloor>y\<rfloor>")
  case True
  have "round_half_even x \<le> \<lfloor>x\<rfloor> + 1" by (rule round_half_even_bounds)
  also have "\<dots> \<le> \<lfloor>y\<rfloor>" using True by simp
  also have "\<dots> \<le> round_half_even y" by (rule round_half_even_bounds)
  finally show ?thesis .
next
  case False
  moreover have "\<lfloor>x\<rfloor> \<le> \<lfloor>y\<rfloor>" using assms by (rule floor_mono)
  ultimately have eq: "\<lfloor>x\<rfloor> = \<lfloor>y\<rfloor>" by simp
  then show ?thesis using assms by (auto simp: round_half_even_def Let_def)
qed

lemma float64_pos_eq:
  "0 < x \<Longrightarrow> float64 x =
     of_int (round_half_even (x / 2 powi (exponent x - 52))) * 2 powi (exponent x - 52)"
  by (simp add: float64_def Let_def)

lemma float64_zero: "float64 0 = 0"
  by (simp add: float64_def)

lemma float64_minus: "float64 (- x) = - float64 x"
  by (simp add: float64_def Let_def sgn_minus)

lemma float64_bounds:
  assumes "0 < x"
  shows "2 powi exponent x \<le> float64 x" and "float64 x \<le> 2 powi (exponent x + 1)"
proof -
  define e where "e = exponent x"
  define u :: rat where "u = 2 powi (e - 52)"
  have upos: "0 < u" by (simp add: u_def)
  have lo: "2 powi e \<le> x" and hi: "x < 2 powi (e + 1)"
    using exponent_bounds[OF assms] by (simp_all add: e_def)
  have u52: "of_int (2 ^ 52) * u = 2 powi e"
    by (simp add: u_def power_int_diff)
  have u53: "of_int (2 ^ 53) * u = 2 powi (e + 1)"
    by (simp add: u_def power_int_diff power_int_add)
  have f: "float64 x = of_int (round_half_even (x / u)) * u"
    using assms by (simp add: float64_pos_eq e_def u_def)
  have "of_int (2 ^ 52) \<le> x / u"
    using lo upos u52 by (simp add: pos_le_divide_eq)
  then have "round_half_even (of_int (2 ^ 52)) \<le> round_half_even (x / u)"
    by (rule round_half_even_mono)
  then have "2 ^ 52 \<le> round_half_even (x / u)" by (simp only: round_half_even_of_int)
  then have "(of_int (2 ^ 52) :: rat) \<le> of_int (round_half_even (x / u))"
    by (simp only: of_int_le_iff)
  then have "of_int (2 ^ 52) * u \<le> of_int (round_half_even (x / u)) * u"
    using upos by (simp only: mult_le_cancel_right_pos)
  then show "2 powi exponent x \<le> float64 x" by (simp only: f u52 e_def)
  have "x / u \<le> of_int (2 ^ 53)"
    using hi upos u53 by (simp add: pos_divide_le_eq)
  then have "round_half_even (x / u) \<le> round_half_even (of_int (2 ^ 53))"
    by (rule round_half_even_mono)
  then have "round_half_even (x / u) \<le> 2 ^ 53" by (simp only: round_half_even_of_int)
  then have "(of_int (round_half_even (x / u)) :: rat) \<le> of_int (2 ^ 53)"
    by (simp only: of_int_le_iff)
  then have "of_int (round_half_even (x / u)) * u \<le> of_int (2 ^ 53) * u"
    using upos by (simp only: mult_le_cancel_right_pos)
  then show "float64 x \<le> 2 powi (exponent x + 1)" by (simp only: f u53 e_def)
qed

lemma float64_pos:
  assumes "0 < x"
  shows "0 < float64 x"
proof -
  have "(0::rat) < 2 powi exponent x" by simp
  with float64_bounds(1)[OF assms] show ?thesis by linarith
qed

lemma float64_mono_pos:
  assumes "0 < x" "x \<le> y"
  shows "float64 x \<le> float64 y"
proof -
  have ypos: "0 < y" using assms by simp
  have le: "exponent x \<le> exponent y" using assms by (rule exponent_mono)
  show ?thesis
  proof (cases "exponent x = exponent y")
    case True
    define u :: rat where "u = 2 powi (exponent y - 52)"
    have upos: "0 < u" by (simp add: u_def)
    have "x / u \<le> y / u" using assms(2) upos by (simp add: divide_right_mono)
    then have "round_half_even (x / u) \<le> round_half_even (y / u)"
      by (rule round_half_even_mono)
    then have "(of_int (round_half_even (x / u)) :: rat) \<le> of_int (round_half_even (y / u))"
      by (simp only: of_int_le_iff)
    then have "of_int (round_half_even (x / u)) * u \<le> of_int (round_half_even (y / u)) * u"
      using upos by (simp only: mult_le_cancel_right_pos)
    then show ?thesis
      using assms(1) ypos True by (simp add: float64_pos_eq u_def)
  next
    case False
    with le have "exponent x + 1 \<le> exponent y" by simp
    then have "(2::rat) powi (exponent x + 1) \<le> 2 powi exponent y"
      by (intro power_int_increasing) simp_all
    with float64_bounds(2)[OF assms(1)] float64_bounds(1)[OF ypos]
    show ?thesis by simp
  qed
qed

lemma float64_mono:
  assumes "x \<le> y"
  shows "float64 x \<le> float64 y"
proof -
  consider "0 < x" | "x = 0" "0 < y" | "x = 0" "y = 0" | "x < 0" "0 \<le> y" | "y < 0"
    using assms by linarith
  then show ?thesis
  proof cases
    case 1
    then show ?thesis using assms by (rule float64_mono_pos)
  next
    case 2
    then show ?thesis using float64_pos[of y] by (simp add: float64_zero)
  next
    case 3
    then show ?thesis by simp
  next
    case 4
    have "0 < float64 (- x)" using 4 by (intro float64_pos) simp
    then have "float64 x < 0" using float64_minus[of "- x"] by simp
    moreover have "0 \<le> float64 y"
      using 4 float64_pos[of y] by (cases "y = 0") (simp_all add: float64_zero)
    ultimately show ?thesis by simp
  next
    case 5
    have "float64 (- y) \<le> float64 (- x)" using 5 assms by (intro float64_mono_pos) simp_all
    then show ?thesis using float64_minus[of "- x"] float64_minus[of "- y"] by simp
  qed
qed

lemma float64_exact_pos:
  assumes "0 < m" "m < 2 ^ 53"
  shows "float64 (of_int m * 2 powi k) = of_int m * 2 powi k"
proof -
  define x :: rat where "x = of_int m * 2 powi k"
  have xpos: "0 < x" using assms(1) by (simp add: x_def)
  define e where "e = exponent x"
  have "(of_int m :: rat) < of_int (2 ^ 53)" using assms(2) by (simp only: of_int_less_iff)
  then have "x < 2 powi 53 * 2 powi k" by (simp add: x_def)
  then have "x < 2 powi (53 + k)" by (simp add: power_int_add)
  moreover have "2 powi e \<le> x" using exponent_bounds(1)[OF xpos] by (simp add: e_def)
  ultimately have "(2::rat) powi e < 2 powi (53 + k)" by simp
  then have "e < 53 + k" by (rule powi2_less_imp)
  then have nn: "0 \<le> k - e + 52" by simp
  have "x / 2 powi (e - 52) = of_int m * 2 powi (k - e + 52)"
    by (simp add: x_def power_int_diff power_int_add)
  also have "\<dots> = of_int m * 2 ^ nat (k - e + 52)"
    using nn by (simp add: power_int_nonneg_exp)
  also have "\<dots> = of_int (m * 2 ^ nat (k - e + 52))" by simp
  finally have q: "x / 2 powi (e - 52) = of_int (m * 2 ^ nat (k - e + 52))" .
  have "float64 x = of_int (m * 2 ^ nat (k - e + 52)) * 2 powi (e - 52)"
    using xpos by (simp only: float64_pos_eq e_def[symmetric] q round_half_even_of_int)
  also have "\<dots> = of_int m * (2 powi (k - e + 52) * 2 powi (e - 52))"
    using nn by (simp add: power_int_nonneg_exp)
  also have "\<dots> = of_int m * 2 powi k"
    by (simp flip: power_int_add)
  finally show ?thesis by (simp add: x_def)
qed

lemma float64_of_int:
  assumes "\<bar>n\<bar> < 2 ^ 53"
  shows "float64 (of_int n) = of_int n"
proof -
  consider "n = 0" | "0 < n" | "n < 0" by linarith
  then show ?thesis
  proof cases
    case 1
    then show ?thesis by (simp add: float64_zero)
  next
    case 2
    then show ?thesis using assms float64_exact_pos[of n 0] by simp
  next
    case 3
    then have "float64 (of_int (- n) * 2 powi 0) = of_int (- n) * 2 powi 0"
      using assms by (intro float64_exact_pos) simp_all
    then show ?thesis using float64_minus[of "of_int n"] by simp
  qed
qed

lemma float64_value:
  assumes "0 < x" "2 powi e \<le> x" "x < 2 powi (e + 1)"
  shows "float64 x = of_int (round_half_even (x / 2 powi (e - 52))) * 2 powi (e - 52)"
  using assms float64_pos_eq[of x] exponent_unique[of x e] by simp

lemma round_half_even_nearest:
  assumes "of_int k - 1 / 2 < x" "x < of_int k + 1 / 2"
  shows "round_half_even x = k"
proof (cases "of_int k \<le> x")
  case True
  then have "\<lfloor>x\<rfloor> = k" using assms(2) by (intro floor_unique) simp_all
  then show ?thesis using assms(2) by (simp add: round_half_even_def Let_def)
next
  case False
  then have "\<lfloor>x\<rfloor> = k - 1" using assms(1) by (intro floor_unique) simp_all
  then show ?thesis using assms(1) by (simp add: round_half_even_def Let_def)
qed

lemma float64_nearest:
  assumes "0 < x" "2 powi e \<le> x" "x < 2 powi (e + 1)"
    and "of_int k - 1 / 2 < x / 2 powi (e - 52)" "x / 2 powi (e - 52) < of_int k + 1 / 2"
  shows "float64 x = of_int k * 2 powi (e - 52)"
  using float64_value[OF assms(1,2,3)] round_half_even_nearest[OF assms(4,5)] by simp

lemma float64_17: "float64 (17 / 10) = 7656119366529843 / 2 ^ 52"
  using float64_nearest[of "17 / 10" 0 7656119366529843] by (simp add: power_int_minus)

lemma float64_18: "float64 (18 / 10) = 8106479329266893 / 2 ^ 52"
  using float64_nearest[of "18 / 10" 0 8106479329266893] by (simp add: power_int_minus)

lemma float64_055: "float64 (55 / 100) = 4953959590107546 / 2 ^ 53"
  using float64_nearest[of "55 / 100" "- 1" 4953959590107546] by (simp add: power_int_minus)

lemma float64_058: "float64 (58 / 100) = 5224175567749775 / 2 ^ 53"
  using float64_nearest[of "58 / 100" "- 1" 5224175567749775] by (simp add: power_int_minus)

lemma float64_below:
  assumes "x \<le> of_int m * 2 powi k" "0 < m" "m < 2 ^ 53" "of_int m * 2 powi k < c"
  shows "float64 x < c"
proof -
  have "float64 x \<le> float64 (of_int m * 2 powi k)" using assms(1) by (rule float64_mono)
  also have "\<dots> = of_int m * 2 powi k" using assms(2,3) by (rule float64_exact_pos)
  finally show ?thesis using assms(4) by simp
qed

lemma float64_above:
  assumes "of_int m * 2 powi k \<le> x" "0 < m" "m < 2 ^ 53" "c < of_int m * 2 powi k"
  shows "c < float64 x"
proof -
  have "float64 (of_int m * 2 powi k) \<le> float64 x" using assms(1) by (rule float64_mono)
  moreover have "float64 (of_int m * 2 powi k) = of_int m * 2 powi k"
    using assms(2,3) by (rule float64_exact_pos)
  ultimately show ?thesis using assms(4) by simp
qed

lemma gap_below:
  fixes a b p d :: int
  assumes "0 < b" "b \<le> 2 ^ 48" "0 < d"
    and "(of_int a :: rat) / of_int b < of_int p / of_int d"
  shows "(of_int a :: rat) / of_int b \<le> of_int p / of_int d - 1 / (of_int d * 2 ^ 48)"
proof -
  have "(of_int (a * d) :: rat) < of_int (p * b)"
    using assms(1,3,4) by (simp add: field_simps)
  then have "a * d < p * b" by (simp only: of_int_less_iff)
  then have "a * d + 1 \<le> p * b" by simp
  then have "(of_int (a * d + 1) :: rat) \<le> of_int (p * b)" by (simp only: of_int_le_iff)
  then have "(of_int a :: rat) / of_int b \<le> of_int p / of_int d - 1 / (of_int d * of_int b)"
    using assms(1,3) by (simp add: field_simps)
  moreover have "(1::rat) / (of_int d * 2 ^ 48) \<le> 1 / (of_int d * of_int b)"
  proof -
    have "(of_int b :: rat) \<le> of_int (2 ^ 48)" using assms(2) by (simp only: of_int_le_iff)
    then have "(of_int d :: rat) * of_int b \<le> of_int d * 2 ^ 48"
      using assms(3) by simp
    moreover have "(0::rat) < of_int d * of_int b" using assms(1,3) by simp
    ultimately show ?thesis by (simp add: frac_le)
  qed
  ultimately show ?thesis by linarith
qed

lemma gap_above:
  fixes a b p d :: int
  assumes "0 < b" "b \<le> 2 ^ 48" "0 < d"
    and "(of_int p :: rat) / of_int d < of_int a / of_int b"
  shows "(of_int p :: rat) / of_int d + 1 / (of_int d * 2 ^ 48) \<le> of_int a / of_int b"
proof -
  have "(of_int (- a) :: rat) / of_int b < of_int (- p) / of_int d"
    using assms(4) by simp
  from gap_below[OF assms(1,2,3) this] show ?thesis by simp
qed

lemma ge_17:
  fixes a b :: int
  assumes "0 < b" "b \<le> 2 ^ 48"
  shows "float64 (17 / 10) \<le> float64 (of_int a / of_int b) \<longleftrightarrow> (17 / 10 :: rat) \<le> of_int a / of_int b"
proof
  assume "(17 / 10 :: rat) \<le> of_int a / of_int b"
  then show "float64 (17 / 10) \<le> float64 (of_int a / of_int b)" by (rule float64_mono)
next
  assume l: "float64 (17 / 10) \<le> float64 (of_int a / of_int b)"
  define q :: rat where "q = of_int a / of_int b"
  define c :: rat where "c = float64 (17 / 10)"
  have cval: "c = 7656119366529843 / 2 ^ 52" unfolding c_def by (rule float64_17)
  show "(17 / 10 :: rat) \<le> of_int a / of_int b"
  proof (rule ccontr)
    assume "\<not> (17 / 10 :: rat) \<le> of_int a / of_int b"
    then have "(of_int a :: rat) / of_int b < of_int 17 / of_int 10" by simp
    then have "(of_int a :: rat) / of_int b \<le> of_int 17 / of_int 10 - 1 / (of_int 10 * 2 ^ 48)"
      using assms by (intro gap_below) simp_all
    then have "q \<le> of_int 17 / of_int 10 - 1 / (of_int 10 * 2 ^ 48)" by (simp only: q_def)
    also have "\<dots> \<le> of_int 7656119366529842 * 2 powi (- 52)" by (simp add: power_int_minus)
    finally have "float64 q < c"
      by (rule float64_below) (simp_all add: cval power_int_minus)
    with l show False by (simp add: q_def c_def)
  qed
qed

lemma le_18:
  fixes a b :: int
  assumes "0 < b" "b \<le> 2 ^ 48"
  shows "float64 (of_int a / of_int b) \<le> float64 (18 / 10) \<longleftrightarrow> of_int a / of_int b \<le> (18 / 10 :: rat)"
proof
  assume "of_int a / of_int b \<le> (18 / 10 :: rat)"
  then show "float64 (of_int a / of_int b) \<le> float64 (18 / 10)" by (rule float64_mono)
next
  assume l: "float64 (of_int a / of_int b) \<le> float64 (18 / 10)"
  define q :: rat where "q = of_int a / of_int b"
  define c :: rat where "c = float64 (18 / 10)"
  have cval: "c = 8106479329266893 / 2 ^ 52" unfolding c_def by (rule float64_18)
  show "of_int a / of_int b \<le> (18 / 10 :: rat)"
  proof (rule ccontr)
    assume "\<not> of_int a / of_int b \<le> (18 / 10 :: rat)"
    then have "(of_int 9 :: rat) / of_int 5 < of_int a / of_int b" by simp
    then have "(of_int 9 :: rat) / of_int 5 + 1 / (of_int 5 * 2 ^ 48) \<le> of_int a / of_int b"
      using assms by (intro gap_above) simp_all
    then have "of_int 9 / of_int 5 + 1 / (of_int 5 * 2 ^ 48) \<le> q" by (simp only: q_def)
    moreover have "of_int 8106479329266894 * 2 powi (- 52) \<le> (of_int 9 :: rat) / of_int 5 + 1 / (of_int 5 * 2 ^ 48)"
      by (simp add: power_int_minus)
    ultimately have "of_int 8106479329266894 * 2 powi (- 52) \<le> q" by (rule order_trans[rotated])
    then have "c < float64 q"
      by (rule float64_above) (simp_all add: cval power_int_minus)
    with l show False by (simp add: q_def c_def)
  qed
qed

lemma ge_055:
  fixes a b :: int
  assumes "0 < b" "b \<le> 2 ^ 48"
  shows "float64 (55 / 100) \<le> float64 (of_int a / of_int b) \<longleftrightarrow> (55 / 100 :: rat) \<le> of_int a / of_int b"
proof
  assume "(55 / 100 :: rat) \<le> of_int a / of_int b"
  then show "float64 (55 / 100) \<le> float64 (of_int a / of_int b)" by (rule float64_mono)
next
  assume l: "float64 (55 / 100) \<le> float64 (of_int a / of_int b)"
  define q :: rat where "q = of_int a / of_int b"
  define c :: rat where "c = float64 (55 / 100)"
  have cval: "c = 4953959590107546 / 2 ^ 53" unfolding c_def by (rule float64_055)
  show "(55 / 100 :: rat) \<le> of_int a / of_int b"
  proof (rule ccontr)
    assume "\<not> (55 / 100 :: rat) \<le> of_int a / of_int b"
    then have "(of_int a :: rat) / of_int b < of_int 11 / of_int 20" by simp
    then have "(of_int a :: rat) / of_int b \<le> of_int 11 / of_int 20 - 1 / (of_int 20 * 2 ^ 48)"
      using assms by (intro gap_below) simp_all
    then have "q \<le> of_int 11 / of_int 20 - 1 / (of_int 20 * 2 ^ 48)" by (simp only: q_def)
    also have "\<dots> \<le> of_int 4953959590107545 * 2 powi (- 53)" by (simp add: power_int_minus)
    finally have "float64 q < c"
      by (rule float64_below) (simp_all add: cval power_int_minus)
    with l show False by (simp add: q_def c_def)
  qed
qed

lemma le_058:
  fixes a b :: int
  assumes "0 < b" "b \<le> 2 ^ 48"
  shows "float64 (of_int a / of_int b) \<le> float64 (58 / 100) \<longleftrightarrow> of_int a / of_int b \<le> (58 / 100 :: rat)"
proof
  assume "of_int a / of_int b \<le> (58 / 100 :: rat)"
  then show "float64 (of_int a / of_int b) \<le> float64 (58 / 100)" by (rule float64_mono)
next
  assume l: "float64 (of_int a / of_int b) \<le> float64 (58 / 100)"
  define q :: rat where "q = of_int a / of_int b"
  define c :: rat where "c = float64 (58 / 100)"
  have cval: "c = 5224175567749775 / 2 ^ 53" unfolding c_def by (rule float64_058)
  show "of_int a / of_int b \<le> (58 / 100 :: rat)"
  proof (rule ccontr)
    assume "\<not> of_int a / of_int b \<le> (58 / 100 :: rat)"
    then have "(of_int 29 :: rat) / of_int 50 < of_int a / of_int b" by simp
    then have "(of_int 29 :: rat) / of_int 50 + 1 / (of_int 50 * 2 ^ 48) \<le> of_int a / of_int b"
      using assms by (intro gap_above) simp_all
    then have "of_int 29 / of_int 50 + 1 / (of_int 50 * 2 ^ 48) \<le> q" by (simp only: q_def)
    moreover have "of_int 5224175567749776 * 2 powi (- 53) \<le> (of_int 29 :: rat) / of_int 50 + 1 / (of_int 50 * 2 ^ 48)"
      by (simp add: power_int_minus)
    ultimately have "of_int 5224175567749776 * 2 powi (- 53) \<le> q" by (rule order_trans[rotated])
    then have "c < float64 q"
      by (rule float64_above) (simp_all add: cval power_int_minus)
    with l show False by (simp add: q_def c_def)
  qed
qed

lemma sgn_frac:
  fixes w h :: int
  assumes "h \<noteq> 0"
  shows "(of_int w :: rat) / of_int h = of_int (w * sgn h) / of_int \<bar>h\<bar>"
  using assms by (cases "0 < h") (simp_all add: sgn_if)

lemma ratio_exact:
  fixes w h :: int
  assumes "h \<noteq> 0" "\<bar>w\<bar> \<le> 2 ^ 48" "\<bar>h\<bar> \<le> 2 ^ 48"
  shows "float64 (float64 (of_int w) / float64 (of_int h)) = float64 (of_int (w * sgn h) / of_int \<bar>h\<bar>)"
proof -
  have "\<bar>w\<bar> < 2 ^ 53" "\<bar>h\<bar> < 2 ^ 53" using assms(2,3) by simp_all
  then have "float64 (of_int w) = of_int w" "float64 (of_int h) = of_int h"
    by (simp_all only: float64_of_int)
  then show ?thesis using sgn_frac[OF assms(1), of w] by (simp only:)
qed

lemma getVideoAspectRatio_exact:
  assumes "ffprobe e (files w filePath) = Some stdout"
    and "json_Unmarshal e stdout = Some (s # rest)"
    and "Width s \<noteq> 0" "Height s \<noteq> 0"
    and "\<bar>Width s\<bar> \<le> 2 ^ 48" "\<bar>Height s\<bar> \<le> 2 ^ 48"
  shows "getVideoAspectRatio e w filePath =
           Inr (if (17 / 10 :: rat) \<le> of_int (Width s) / of_int (Height s)
                   \<and> of_int (Width s) / of_int (Height s) \<le> (18 / 10 :: rat)
                then ''16:9''
                else if (55 / 100 :: rat) \<le> of_int (Width s) / of_int (Height s)
                   \<and> of_int (Width s) / of_int (Height s) \<le> (58 / 100 :: rat)
                then ''9:16''
                else ''other'')"
proof -
  define a where "a = Width s * sgn (Height s)"
  define b where "b = \<bar>Height s\<bar>"
  have b: "0 < b" "b \<le> 2 ^ 48" using assms(4,6) by (simp_all add: b_def)
  have r: "float64 (float64 (of_int (Width s)) / float64 (of_int (Height s)))
             = float64 (of_int a / of_int b)"
    unfolding a_def b_def using assms(4,5,6) by (rule ratio_exact)
  have q: "(of_int (Width s) :: rat) / of_int (Height s) = of_int a / of_int b"
    unfolding a_def b_def using assms(4) by (rule sgn_frac)
  have "getVideoAspectRatio e w filePath =
          Inr (if float64 (17 / 10) \<le> float64 (of_int a / of_int b)
                  \<and> float64 (of_int a / of_int b) \<le> float64 (18 / 10)
               then ''16:9''
               else if float64 (55 / 100) \<le> float64 (of_int a / of_int b)
                  \<and> float64 (of_int a / of_int b) \<le> float64 (58 / 100)
               then ''9:16''
               else ''other'')"
    unfolding getVideoAspectRatio_def Let_def r[symmetric]
    using assms(1,2,3,4) by (simp only: option.case list.case simp_thms if_False if_distrib[of Inr] cong: if_cong)
  then show ?thesis
    by (simp only: q ge_17[OF b] le_18[OF b] ge_055[OF b] le_058[OF b])
qed

section \<open>The storage locator\<close>

lemma Split_not_Nil: "Split s sep \<noteq> []"
  by (induction s) (auto split: list.splits)

lemma length_Split: "length (Split s sep) = Suc (count_list s sep)"
  by (induction s) (auto split: list.splits simp: Split_not_Nil)

lemma Split_no_sep: "sep \<notin> set s \<Longrightarrow> Split s sep = [s]"
  by (induction s) auto

lemma Split_append: "sep \<notin> set b \<Longrightarrow> Split (b @ sep # k) sep = b # Split k sep"
  by (induction b) auto

lemma Split_pair:
  assumes "sep \<notin> set b" "sep \<notin> set k"
  shows "Split (b @ sep # k) sep = [b, k]"
  using assms by (simp add: Split_append Split_no_sep)

lemma dbVideoToSignedVideo_absent:
  "VideoURL v = None \<or> VideoURL v = Some [] \<Longrightarrow> dbVideoToSignedVideo e v = (v, None)"
  by (simp add: dbVideoToSignedVideo_def)

lemma dbVideoToSignedVideo_locator:
  assumes "CHR '','' \<notin> set b" "CHR '','' \<notin> set k"
  shows "dbVideoToSignedVideo e (v\<lparr>VideoURL := Some (b @ '','' @ k)\<rparr>) =
           (case generatePresignedURL e b k Hour of
              Inl err \<Rightarrow> (v\<lparr>VideoURL := Some (b @ '','' @ k)\<rparr>, Some err)
            | Inr presignedURL \<Rightarrow> (v\<lparr>VideoURL := Some presignedURL\<rparr>, None))"
  using Split_pair[OF assms] by (simp add: dbVideoToSignedVideo_def split: sum.splits)

lemma dbVideoToSignedVideo_malformed:
  assumes "url \<noteq> []" "count_list url (CHR '','') \<noteq> 1"
  shows "dbVideoToSignedVideo e (v\<lparr>VideoURL := Some url\<rparr>) =
           (v\<lparr>VideoURL := Some url\<rparr>, Some (InvalidVideoURLFormat url))"
proof -
  have "length (Split url (CHR '','')) \<noteq> 2"
    using assms(2) by (simp add: length_Split)
  then have "\<And>f g. (case Split url (CHR '','') of [bucket, key] \<Rightarrow> f bucket key | _ \<Rightarrow> g) = g"
    by (auto split: list.splits)
  then show ?thesis using assms(1) by (simp add: dbVideoToSignedVideo_def)
qed

section \<open>The validation steps of the handler\<close>

lemma MaxBytesReader_simps [simp]:
  "PathValue_videoID (MaxBytesReader r n) = PathValue_videoID r"
  "Header (MaxBytesReader r n) = Header r"
  "bodyLength (MaxBytesReader r n) = bodyLength r"
  "formLength (MaxBytesReader r n) = formLength r"
  "bodyLimit (MaxBytesReader r n) = Some n"
  "form (MaxBytesReader r n) = form r"
  by (simp_all add: MaxBytesReader_def)

lemma ParseMultipartForm_limited:
  "ParseMultipartForm (MaxBytesReader r n) = (if n < formLength r then None else form r)"
  by (simp add: ParseMultipartForm_def)

lemma handler_bad_id:
  assumes "uuid_Parse e (PathValue_videoID r) = None"
  shows "handlerUploadVideo cfg e r w = (w, respondWithError StatusBadRequest ''Invalid video ID'')"
  using assms by (simp add: handlerUploadVideo_def)

lemma handler_no_token:
  assumes "uuid_Parse e (PathValue_videoID r) = Some videoID"
    and "GetBearerToken e (Header r) = None"
  shows "handlerUploadVideo cfg e r w = (w, respondWithError StatusUnauthorized ''Couldn't find JWT'')"
  using assms by (simp add: handlerUploadVideo_def)

lemma handler_bad_token:
  assumes "uuid_Parse e (PathValue_videoID r) = Some videoID"
    and "GetBearerToken e (Header r) = Some token"
    and "ValidateJWT e token (jwtSecret cfg) = None"
  shows "handlerUploadVideo cfg e r w = (w, respondWithError StatusUnauthorized ''Couldn't validate JWT'')"
  using assms by (simp add: handlerUploadVideo_def)

lemma handler_no_record:
  assumes "uuid_Parse e (PathValue_videoID r) = Some videoID"
    and "GetBearerToken e (Header r) = Some token"
    and "ValidateJWT e token (jwtSecret cfg) = Some userID"
    and "GetVideo e videoID = None"
  shows "handlerUploadVideo cfg e r w = (w, respondWithError StatusInternalServerError ''Couldn't get video'')"
  using assms by (simp add: handlerUploadVideo_def)

lemma handler_not_owner:
  assumes "uuid_Parse e (PathValue_videoID r) = Some videoID"
    and "GetBearerToken e (Header r) = Some token"
    and "ValidateJWT e token (jwtSecret cfg) = Some userID"
    and "GetVideo e videoID = Some v"
    and "UserID v \<noteq> userID"
  shows "handlerUploadVideo cfg e r w =
           (w, respondWithError StatusUnauthorized ''User not authorized to update this video'')"
  using assms by (simp add: handlerUploadVideo_def)

lemma handler_bad_form:
  assumes "uuid_Parse e (PathValue_videoID r) = Some videoID"
    and "GetBearerToken e (Header r) = Some token"
    and "ValidateJWT e token (jwtSecret cfg) = Some userID"
    and "GetVideo e videoID = Some v"
    and "UserID v = userID"
    and "ParseMultipartForm (MaxBytesReader r (2 ^ 30)) = None"
  shows "handlerUploadVideo cfg e r w = (w, respondWithError StatusBadRequest ''Couldn't parse form'')"
  using assms by (simp add: handlerUploadVideo_def)

lemma handler_no_file:
  assumes "uuid_Parse e (PathValue_videoID r) = Some videoID"
    and "GetBearerToken e (Header r) = Some token"
    and "ValidateJWT e token (jwtSecret cfg) = Some userID"
    and "GetVideo e videoID = Some v"
    and "UserID v = userID"
    and "ParseMultipartForm (MaxBytesReader r (2 ^ 30)) = Some parts"
    and "FormFile parts ''video'' = None"
  shows "handlerUploadVideo cfg e r w =
           (w, respondWithError StatusBadRequest ''Couldn't get video file from form'')"
  using assms by (simp add: handlerUploadVideo_def)

lemma handler_bad_content_type:
  assumes "uuid_Parse e (PathValue_videoID r) = Some videoID"
    and "GetBearerToken e (Header r) = Some token"
    and "ValidateJWT e token (jwtSecret cfg) = Some userID"
    and "GetVideo e videoID = Some v"
    and "UserID v = userID"
    and "ParseMultipartForm (MaxBytesReader r (2 ^ 30)) = Some parts"
    and "FormFile parts ''video'' = Some (file, contentType)"
    and "ParseMediaType e contentType = None"
  shows "handlerUploadVideo cfg e r w =
           (w, respondWithError StatusBadRequest ''Invalid Content-Type header'')"
  using assms by (simp add: handlerUploadVideo_def)

lemma handler_not_mp4:
  assumes "uuid_Parse e (PathValue_videoID r) = Some videoID"
    and "GetBearerToken e (Header r) = Some token"
    and "ValidateJWT e token (jwtSecret cfg) = Some userID"
    and "GetVideo e videoID = Some v"
    and "UserID v = userID"
    and "ParseMultipartForm (MaxBytesReader r (2 ^ 30)) = Some parts"
    and "FormFile parts ''video'' = Some (file, contentType)"
    and "ParseMediaType e contentType = Some mediaType"
    and "mediaType \<noteq> ''video/mp4''"
  shows "handlerUploadVideo cfg e r w =
           (w, respondWithError StatusBadRequest ''Invalid file type. Only MP4 videos are allowed'')"
  using assms by (simp add: handlerUploadVideo_def)

lemma handler_no_temp:
  assumes "uuid_Parse e (PathValue_videoID r) = Some videoID"
    and "GetBearerToken e (Header r) = Some token"
    and "ValidateJWT e token (jwtSecret cfg) = Some userID"
    and "GetVideo e videoID = Some v"
    and "UserID v = userID"
    and "ParseMultipartForm (MaxBytesReader r (2 ^ 30)) = Some parts"
    and "FormFile parts ''video'' = Some (file, contentType)"
    and "ParseMediaType e contentType = Some ''video/mp4''"
    and "CreateTemp e = None"
  shows "handlerUploadVideo cfg e r w =
           (w, respondWithError StatusInternalServerError ''Couldn't create temporary file'')"
  using assms by (simp add: handlerUploadVideo_def)

lemma handler_staged:
  assumes "uuid_Parse e (PathValue_videoID r) = Some videoID"
    and "GetBearerToken e (Header r) = Some token"
    and "ValidateJWT e token (jwtSecret cfg) = Some userID"
    and "GetVideo e videoID = Some v"
    and "UserID v = userID"
    and "ParseMultipartForm (MaxBytesReader r (2 ^ 30)) = Some parts"
    and "FormFile parts ''video'' = Some (file, contentType)"
    and "ParseMediaType e contentType = Some ''video/mp4''"
    and "CreateTemp e = Some tempName"
  shows "handlerUploadVideo cfg e r w =
           (let w1 = w\<lparr>files := (files w)(tempName \<mapsto> []),
                       effects := effects w @ [TempCreated tempName]\<rparr>;
                (w2, resp) = handlerUploadVideo_staged cfg e v ''video/mp4'' file tempName w1
            in (os_Remove tempName w2, resp))"
  using assms by (simp add: handlerUploadVideo_def)

text \<open>A call that does not end in an error with the world as it was has passed every check
  and has created its temporary file.\<close>

lemma handler_passed_checks:
  assumes "\<And>code msg. handlerUploadVideo cfg e r w \<noteq> (w, respondWithError code msg)"
  shows "\<exists>videoID token v parts upload contentType tempName.
           uuid_Parse e (PathValue_videoID r) = Some videoID
         \<and> GetBearerToken e (Header r) = Some token
         \<and> ValidateJWT e token (jwtSecret cfg) = Some (UserID v)
         \<and> GetVideo e videoID = Some v
         \<and> ParseMultipartForm (MaxBytesReader r (2 ^ 30)) = Some parts
         \<and> FormFile parts ''video'' = Some (upload, contentType)
         \<and> ParseMediaType e contentType = Some ''video/mp4''
         \<and> CreateTemp e = Some tempName"
proof -
  obtain videoID where 1: "uuid_Parse e (PathValue_videoID r) = Some videoID"
    using assms handler_bad_id[of e r cfg w] by (cases "uuid_Parse e (PathValue_videoID r)") auto
  obtain token where 2: "GetBearerToken e (Header r) = Some token"
    using assms handler_no_token[OF 1, of cfg w] by (cases "GetBearerToken e (Header r)") auto
  obtain userID where 3: "ValidateJWT e token (jwtSecret cfg) = Some userID"
    using assms handler_bad_token[OF 1 2, of cfg w]
    by (cases "ValidateJWT e token (jwtSecret cfg)") auto
  obtain v where 4: "GetVideo e videoID = Some v"
    using assms handler_no_record[OF 1 2 3, of w] by (cases "GetVideo e videoID") auto
  have 5: "UserID v = userID"
    using assms handler_not_owner[OF 1 2 3 4, of w] by (cases "UserID v = userID") auto
  obtain parts where 6: "ParseMultipartForm (MaxBytesReader r (2 ^ 30)) = Some parts"
    using assms handler_bad_form[OF 1 2 3 4 5, of w]
    by (cases "ParseMultipartForm (MaxBytesReader r (2 ^ 30))") auto
  obtain upload contentType where 7: "FormFile parts ''video'' = Some (upload, contentType)"
    using assms handler_no_file[OF 1 2 3 4 5 6, of w]
    by (cases "FormFile parts ''video''") auto
  obtain mediaType where 8: "ParseMediaType e contentType = Some mediaType"
    using assms handler_bad_content_type[OF 1 2 3 4 5 6 7, of w]
    by (cases "ParseMediaType e contentType") auto
  have 9: "mediaType = ''video/mp4''"
    using assms handler_not_mp4[OF 1 2 3 4 5 6 7 8, of w]
    by (cases "mediaType = ''video/mp4''") auto
  obtain tempName where 10: "CreateTemp e = Some tempName"
    using assms handler_no_temp[OF 1 2 3 4 5 6 7 8[unfolded 9], of w]
    by (cases "CreateTemp e") auto
  show ?thesis using 1 2 3[folded 5] 4 6 7 8[unfolded 9] 10 by blast
qed

lemma handler_world_changed:
  assumes "fst (handlerUploadVideo cfg e r w) \<noteq> w"
  shows "\<exists>videoID token v parts upload contentType tempName.
           uuid_Parse e (PathValue_videoID r) = Some videoID
         \<and> GetBearerToken e (Header r) = Some token
         \<and> ValidateJWT e token (jwtSecret cfg) = Some (UserID v)
         \<and> GetVideo e videoID = Some v
         \<and> ParseMultipartForm (MaxBytesReader r (2 ^ 30)) = Some parts
         \<and> FormFile parts ''video'' = Some (upload, contentType)
         \<and> ParseMediaType e contentType = Some ''video/mp4''
         \<and> CreateTemp e = Some tempName"
proof (rule handler_passed_checks)
  fix code msg
  show "handlerUploadVideo cfg e r w \<noteq> (w, respondWithError code msg)"
    using assms by auto
qed

lemma handler_json_passed_checks:
  assumes "snd (handlerUploadVideo cfg e r w) = respondWithJSON code payload"
  shows "\<exists>videoID token v parts upload contentType tempName.
           uuid_Parse e (PathValue_videoID r) = Some videoID
         \<and> GetBearerToken e (Header r) = Some token
         \<and> ValidateJWT e token (jwtSecret cfg) = Some (UserID v)
         \<and> GetVideo e videoID = Some v
         \<and> ParseMultipartForm (MaxBytesReader r (2 ^ 30)) = Some parts
         \<and> FormFile parts ''video'' = Some (upload, contentType)
         \<and> ParseMediaType e contentType = Some ''video/mp4''
         \<and> CreateTemp e = Some tempName"
proof (rule handler_passed_checks)
  fix c msg
  show "handlerUploadVideo cfg e r w \<noteq> (w, respondWithError c msg)"
    using assms by auto
qed

section \<open>The claims about the locator\<close>

text \<open>
  C9. For every video record whose stored \<open>VideoURL\<close> is nil or the empty string,
  \<open>dbVideoToSignedVideo\<close> returns the record unchanged and no error: an absent locator is
  tolerated, it is not a format error.
\<close>

theorem absent_locator_tolerated:
  "VideoURL v = None \<or> VideoURL v = Some [] \<Longrightarrow> dbVideoToSignedVideo e v = (v, None)"
  by (rule dbVideoToSignedVideo_absent)

theorem absent_locator_tolerated_witness:
  "VideoURL sample_video = None
   \<and> dbVideoToSignedVideo sample_env sample_video = (sample_video, None)
   \<and> VideoURL (sample_video\<lparr>VideoURL := Some []\<rparr>) = Some []
   \<and> dbVideoToSignedVideo sample_env (sample_video\<lparr>VideoURL := Some []\<rparr>)
       = (sample_video\<lparr>VideoURL := Some []\<rparr>, None)"
  using absent_locator_tolerated[of sample_video sample_env]
    absent_locator_tolerated[of "sample_video\<lparr>VideoURL := Some []\<rparr>" sample_env]
  by (simp add: sample_video_def)

text \<open>
  C2, as the claim states it, fails: the empty string has no comma, and decoding it gives no
  error (the record comes back unchanged).
\<close>

theorem empty_locator_decodes_without_error:
  "count_list [] (CHR '','') \<noteq> 1
   \<and> dbVideoToSignedVideo sample_env (sample_video\<lparr>VideoURL := Some []\<rparr>)
       = (sample_video\<lparr>VideoURL := Some []\<rparr>, None)"
  by (simp add: dbVideoToSignedVideo_def)

text \<open>
  C2, amended. For every bucket \<open>b\<close> and key \<open>k\<close> without a comma, the locator
  \<open>b @ '','' @ k\<close> (as the handler stores it) splits into exactly \<open>[b, k]\<close>, and
  \<open>dbVideoToSignedVideo\<close> presigns that bucket and key; and for every stored locator that is
  not empty and does not hold exactly one comma, \<open>dbVideoToSignedVideo\<close> returns the format
  error.
\<close>

theorem locator_round_trip:
  "(CHR '','' \<notin> set b \<and> CHR '','' \<notin> set k \<longrightarrow>
      Split (b @ '','' @ k) (CHR '','') = [b, k]
    \<and> dbVideoToSignedVideo e (v\<lparr>VideoURL := Some (b @ '','' @ k)\<rparr>) =
        (case generatePresignedURL e b k Hour of
           Inl err \<Rightarrow> (v\<lparr>VideoURL := Some (b @ '','' @ k)\<rparr>, Some err)
         | Inr presignedURL \<Rightarrow> (v\<lparr>VideoURL := Some presignedURL\<rparr>, None)))
   \<and> (url \<noteq> [] \<and> count_list url (CHR '','') \<noteq> 1 \<longrightarrow>
        dbVideoToSignedVideo e (v\<lparr>VideoURL := Some url\<rparr>) =
          (v\<lparr>VideoURL := Some url\<rparr>, Some (InvalidVideoURLFormat url)))"
proof (intro conjI impI)
  assume a: "CHR '','' \<notin> set b \<and> CHR '','' \<notin> set k"
  then show "Split (b @ '','' @ k) (CHR '','') = [b, k]"
    using Split_pair[of "CHR '',''" b k] by simp
  from a show "dbVideoToSignedVideo e (v\<lparr>VideoURL := Some (b @ '','' @ k)\<rparr>) =
        (case generatePresignedURL e b k Hour of
           Inl err \<Rightarrow> (v\<lparr>VideoURL := Some (b @ '','' @ k)\<rparr>, Some err)
         | Inr presignedURL \<Rightarrow> (v\<lparr>VideoURL := Some presignedURL\<rparr>, None))"
    by (intro dbVideoToSignedVideo_locator) simp_all
next
  assume "url \<noteq> [] \<and> count_list url (CHR '','') \<noteq> 1"
  then show "dbVideoToSignedVideo e (v\<lparr>VideoURL := Some url\<rparr>) =
          (v\<lparr>VideoURL := Some url\<rparr>, Some (InvalidVideoURLFormat url))"
    by (intro dbVideoToSignedVideo_malformed) simp_all
qed

theorem locator_round_trip_witness:
  "Split ''tubely,landscape/abc.mp4'' (CHR '','') = [''tubely'', ''landscape/abc.mp4'']
   \<and> dbVideoToSignedVideo sample_env (sample_video\<lparr>VideoURL := Some ''tubely,landscape/abc.mp4''\<rparr>)
       = (sample_video\<lparr>VideoURL :=
            Some ''https://tubely.s3.amazonaws.com/landscape/abc.mp4?X-Amz-Expires=3600''\<rparr>, None)
   \<and> dbVideoToSignedVideo sample_env (sample_video\<lparr>VideoURL := Some ''a,b,c''\<rparr>)
       = (sample_video\<lparr>VideoURL := Some ''a,b,c''\<rparr>, Some (InvalidVideoURLFormat ''a,b,c''))"
  using locator_round_trip[where b = "''tubely''" and k = "''landscape/abc.mp4''"
      and e = sample_env and v = sample_video and url = "''a,b,c''"]
  by (simp add: sample_env_def generatePresignedURL_def)

section \<open>The claims about rejected requests\<close>

lemma handler_unparsed_form:
  assumes "ParseMultipartForm (MaxBytesReader r (2 ^ 30)) = None"
  shows "\<exists>code msg. handlerUploadVideo cfg e r w = (w, respondWithError code msg)"
  using assms by (auto simp: handlerUploadVideo_def Let_def split: option.splits)

lemmas sample_defs =
  sample_env_def sample_request_def sample_cfg_def sample_video_def sample_world_def

lemma sample_bob:
  "uuid_Parse sample_env (PathValue_videoID
     (sample_request\<lparr>Header := [(''Authorization'', ''Bearer bob'')]\<rparr>)) = Some 7"
  "GetBearerToken sample_env (Header
     (sample_request\<lparr>Header := [(''Authorization'', ''Bearer bob'')]\<rparr>)) = Some ''bob''"
  "ValidateJWT sample_env ''bob'' (jwtSecret sample_cfg) = Some 2"
  "GetVideo sample_env 7 = Some sample_video"
  "UserID sample_video \<noteq> 2"
  by (simp_all add: sample_defs)

text \<open>
  C4, as the claim states it, fails: a request authenticated as user 2 for the record of
  user 1 is answered with status 401 (Unauthorized), not 403 (Forbidden).
\<close>

theorem non_owner_gets_401_not_403:
  "handlerUploadVideo sample_cfg sample_env
     (sample_request\<lparr>Header := [(''Authorization'', ''Bearer bob'')]\<rparr>) sample_world
     = (sample_world,
        respondWithError StatusUnauthorized ''User not authorized to update this video'')
   \<and> statusCode (snd (handlerUploadVideo sample_cfg sample_env
          (sample_request\<lparr>Header := [(''Authorization'', ''Bearer bob'')]\<rparr>) sample_world))
       \<noteq> StatusForbidden"
proof -
  have "handlerUploadVideo sample_cfg sample_env
     (sample_request\<lparr>Header := [(''Authorization'', ''Bearer bob'')]\<rparr>) sample_world
     = (sample_world,
        respondWithError StatusUnauthorized ''User not authorized to update this video'')"
    by (rule handler_not_owner[OF sample_bob])
  then show ?thesis by simp
qed

text \<open>
  C4, amended. For every request that carries a valid video id and valid credentials of a user
  who is not the owner of the fetched record, the handler answers 401 Unauthorized with the
  message ``User not authorized to update this video'' and leaves the world as it was: no
  object is put, no record is updated, no file is created.
\<close>

theorem non_owner_rejected:
  assumes "uuid_Parse e (PathValue_videoID r) = Some videoID"
    and "GetBearerToken e (Header r) = Some token"
    and "ValidateJWT e token (jwtSecret cfg) = Some userID"
    and "GetVideo e videoID = Some v"
    and "UserID v \<noteq> userID"
  shows "handlerUploadVideo cfg e r w =
           (w, respondWithError StatusUnauthorized ''User not authorized to update this video'')
         \<and> effects (fst (handlerUploadVideo cfg e r w)) = effects w
         \<and> files (fst (handlerUploadVideo cfg e r w)) = files w"
  using handler_not_owner[OF assms] by simp

theorem non_owner_rejected_witness:
  "uuid_Parse sample_env (PathValue_videoID
     (sample_request\<lparr>Header := [(''Authorization'', ''Bearer bob'')]\<rparr>)) = Some 7
   \<and> GetBearerToken sample_env (Header
     (sample_request\<lparr>Header := [(''Authorization'', ''Bearer bob'')]\<rparr>)) = Some ''bob''
   \<and> ValidateJWT sample_env ''bob'' (jwtSecret sample_cfg) = Some 2
   \<and> GetVideo sample_env 7 = Some sample_video
   \<and> UserID sample_video \<noteq> 2
   \<and> handlerUploadVideo sample_cfg sample_env
        (sample_request\<lparr>Header := [(''Authorization'', ''Bearer bob'')]\<rparr>) sample_world
       = (sample_world,
          respondWithError StatusUnauthorized ''User not authorized to update this video'')
   \<and> effects (fst (handlerUploadVideo sample_cfg sample_env
        (sample_request\<lparr>Header := [(''Authorization'', ''Bearer bob'')]\<rparr>) sample_world))
       = effects sample_world"
  using non_owner_rejected[OF sample_bob, of sample_world] sample_bob by simp


lemma sample_alice:
  "uuid_Parse sample_env (PathValue_videoID (sample_request\<lparr>form := f, bodyLength := n\<rparr>)) = Some 7"
  "GetBearerToken sample_env (Header (sample_request\<lparr>form := f, bodyLength := n\<rparr>)) = Some ''alice''"
  "ValidateJWT sample_env ''alice'' (jwtSecret sample_cfg) = Some 1"
  "GetVideo sample_env 7 = Some sample_video"
  "UserID sample_video = 1"
  by (simp_all add: sample_defs)

text \<open>
  C6, as the claim states it, fails: an upload declared as \<open>image/png\<close> is answered with
  status 400 (Bad Request), not 415 (Unsupported Media Type).
\<close>

theorem png_gets_400_not_415:
  "handlerUploadVideo sample_cfg sample_env
     (sample_request\<lparr>form := Some [(''video'', ''PNG'', ''image/png'')], bodyLength := 3\<rparr>)
     sample_world
     = (sample_world,
        respondWithError StatusBadRequest ''Invalid file type. Only MP4 videos are allowed'')
   \<and> statusCode (snd (handlerUploadVideo sample_cfg sample_env
          (sample_request\<lparr>form := Some [(''video'', ''PNG'', ''image/png'')], bodyLength := 3\<rparr>)
          sample_world))
       \<noteq> StatusUnsupportedMediaType"
proof -
  have p: "ParseMultipartForm (MaxBytesReader
             (sample_request\<lparr>form := Some [(''video'', ''PNG'', ''image/png'')], bodyLength := 3\<rparr>)
             (2 ^ 30)) = Some [(''video'', ''PNG'', ''image/png'')]"
    by (simp add: ParseMultipartForm_limited sample_defs)
  have f: "FormFile [(''video'', ''PNG'', ''image/png'')] ''video'' = Some (''PNG'', ''image/png'')"
    by (simp add: FormFile_def)
  have m: "ParseMediaType sample_env ''image/png'' = Some ''image/png''"
    by (simp add: sample_defs)
  have "handlerUploadVideo sample_cfg sample_env
     (sample_request\<lparr>form := Some [(''video'', ''PNG'', ''image/png'')], bodyLength := 3\<rparr>)
     sample_world
     = (sample_world,
        respondWithError StatusBadRequest ''Invalid file type. Only MP4 videos are allowed'')"
    by (rule handler_not_mp4[OF sample_alice p f m]) simp
  then show ?thesis by simp
qed

text \<open>
  C6, amended. For every request that has passed the checks before it (video id,
  credentials, record, ownership, form, the form's \<open>video\<close> file): when the declared content
  type does not parse, the handler answers 400 Bad Request ``Invalid Content-Type header'';
  when it parses to a media type other than \<open>video/mp4\<close>, the handler answers 400 Bad
  Request ``Invalid file type. Only MP4 videos are allowed''. In both cases the world is as
  it was: no staging file is created.
\<close>

theorem wrong_media_type_rejected:
  assumes "uuid_Parse e (PathValue_videoID r) = Some videoID"
    and "GetBearerToken e (Header r) = Some token"
    and "ValidateJWT e token (jwtSecret cfg) = Some userID"
    and "GetVideo e videoID = Some v"
    and "UserID v = userID"
    and "ParseMultipartForm (MaxBytesReader r (2 ^ 30)) = Some parts"
    and "FormFile parts ''video'' = Some (file, contentType)"
  shows "(ParseMediaType e contentType = None \<longrightarrow>
            handlerUploadVideo cfg e r w =
              (w, respondWithError StatusBadRequest ''Invalid Content-Type header''))
       \<and> (\<forall>mediaType. ParseMediaType e contentType = Some mediaType
              \<and> mediaType \<noteq> ''video/mp4'' \<longrightarrow>
            handlerUploadVideo cfg e r w =
              (w, respondWithError StatusBadRequest
                    ''Invalid file type. Only MP4 videos are allowed''))"
  using handler_bad_content_type[OF assms] handler_not_mp4[OF assms] by blast

theorem wrong_media_type_rejected_witness:
  "handlerUploadVideo sample_cfg sample_env
     (sample_request\<lparr>form := Some [(''video'', ''PNG'', ''image/png'')], bodyLength := 3\<rparr>)
     sample_world
     = (sample_world,
        respondWithError StatusBadRequest ''Invalid file type. Only MP4 videos are allowed'')
   \<and> handlerUploadVideo sample_cfg sample_env
     (sample_request\<lparr>form := Some [(''video'', ''mdat'', [])], bodyLength := 4\<rparr>)
     sample_world
     = (sample_world, respondWithError StatusBadRequest ''Invalid Content-Type header'')"
proof -
  have p: "ParseMultipartForm (MaxBytesReader
             (sample_request\<lparr>form := Some [(''video'', ''PNG'', ''image/png'')], bodyLength := 3\<rparr>)
             (2 ^ 30)) = Some [(''video'', ''PNG'', ''image/png'')]"
    and q: "ParseMultipartForm (MaxBytesReader
             (sample_request\<lparr>form := Some [(''video'', ''mdat'', [])], bodyLength := 4\<rparr>)
             (2 ^ 30)) = Some [(''video'', ''mdat'', [])]"
    by (simp_all add: ParseMultipartForm_limited sample_defs)
  have f: "FormFile [(''video'', ''PNG'', ''image/png'')] ''video'' = Some (''PNG'', ''image/png'')"
    and g: "FormFile [(''video'', ''mdat'', [])] ''video'' = Some (''mdat'', [])"
    by (simp_all add: FormFile_def)
  have m: "ParseMediaType sample_env ''image/png'' = Some ''image/png''"
    and n: "ParseMediaType sample_env [] = None"
    by (simp_all add: sample_defs)
  show ?thesis
    using wrong_media_type_rejected[OF sample_alice p f, of sample_world]
      wrong_media_type_rejected[OF sample_alice q g, of sample_world] m n
    by simp
qed

section \<open>The upload\<close>

lemma keyPrefix_cases: "keyPrefix aspectRatio \<in> {''landscape'', ''portrait'', ''other''}"
  by (simp add: keyPrefix_def)

lemma processed_json:
  assumes "handlerUploadVideo_processed cfg e v mediaType aspectRatio p w
             = (w', respondWithJSON code signedVideo)"
  shows "\<exists>processedFile randomBytes.
           files w p = Some processedFile
         \<and> rand_Read e 32 = Some randomBytes
         \<and> code = StatusOK
         \<and> w' = w\<lparr>effects := effects w @
               [ObjectPut (s3Bucket cfg)
                  (keyPrefix aspectRatio @ ''/'' @ EncodeToString e randomBytes @ ''.mp4'')
                  processedFile mediaType,
                VideoUpdated (v\<lparr>VideoURL := Some (s3Bucket cfg @ '','' @
                  keyPrefix aspectRatio @ ''/'' @ EncodeToString e randomBytes @ ''.mp4'')\<rparr>)]\<rparr>"
proof -
  note d = handlerUploadVideo_processed_def Let_def
  obtain processedFile where o: "os_Open e w p = Some processedFile"
    using assms by (cases "os_Open e w p") (simp_all add: d)
  then have f: "files w p = Some processedFile"
    by (auto simp: os_Open_def split: option.splits if_splits)
  have s: "Seek e" using assms o by (cases "Seek e") (simp_all add: d)
  obtain randomBytes where rr: "rand_Read e 32 = Some randomBytes"
    using assms o s by (cases "rand_Read e 32") (simp_all add: d)
  define key where "key = keyPrefix aspectRatio @ ''/'' @ EncodeToString e randomBytes @ ''.mp4''"
  define v1 where "v1 = v\<lparr>VideoURL := Some (s3Bucket cfg @ '','' @ key)\<rparr>"
  define w2 where "w2 = w\<lparr>effects := effects w @
      [ObjectPut (s3Bucket cfg) key processedFile mediaType, VideoUpdated v1]\<rparr>"
  have po: "PutObject e (s3Bucket cfg) key processedFile mediaType"
    using assms o s rr
    by (cases "PutObject e (s3Bucket cfg) key processedFile mediaType") (simp_all add: d key_def)
  have up: "UpdateVideo e v1"
    using assms o s rr po by (cases "UpdateVideo e v1") (simp_all add: d key_def v1_def)
  obtain sv err where db: "dbVideoToSignedVideo e v1 = (sv, err)"
    by (cases "dbVideoToSignedVideo e v1")
  have "w' = w2 \<and> code = StatusOK"
    using assms o s rr po up db unfolding w2_def v1_def key_def
    by (cases err) (simp_all add: d)
  with f rr show ?thesis unfolding w2_def v1_def key_def by blast
qed

lemma processed_files:
  "files (fst (handlerUploadVideo_processed cfg e v mediaType aspectRatio p w)) = files w"
  unfolding handlerUploadVideo_processed_def Let_def
  by (auto split: option.splits if_splits prod.splits)


lemma getVideoAspectRatio_reads:
  "files w p = files w' p \<Longrightarrow> getVideoAspectRatio e w p = getVideoAspectRatio e w' p"
  by (simp add: getVideoAspectRatio_def)

lemma staged_json:
  assumes "handlerUploadVideo_staged cfg e v mediaType upload tempName w
             = (w', respondWithJSON code signedVideo)"
  shows "\<exists>aspectRatio remuxed randomBytes.
           getVideoAspectRatio e (w\<lparr>files := (files w)(tempName \<mapsto> upload)\<rparr>) tempName
             = Inr aspectRatio
         \<and> ffmpeg e (Some upload) = Finished remuxed
         \<and> rand_Read e 32 = Some randomBytes
         \<and> code = StatusOK
         \<and> effects w' = effects w @
               [FileWritten tempName upload,
                FileWritten (tempName @ ''.processing'') remuxed,
                ObjectPut (s3Bucket cfg)
                  (keyPrefix aspectRatio @ ''/'' @ EncodeToString e randomBytes @ ''.mp4'')
                  remuxed mediaType,
                VideoUpdated (v\<lparr>VideoURL := Some (s3Bucket cfg @ '','' @
                  keyPrefix aspectRatio @ ''/'' @ EncodeToString e randomBytes @ ''.mp4'')\<rparr>),
                FileRemoved (tempName @ ''.processing'')]"
proof -
  define w1 where "w1 = w\<lparr>files := (files w)(tempName \<mapsto> upload),
                           effects := effects w @ [FileWritten tempName upload]\<rparr>"
  from assms obtain aspectRatio w2 processedFilePath w3 where
    c: "Copy e upload = None"
    and ar: "getVideoAspectRatio e w1 tempName = Inr aspectRatio"
    and pv: "processVideoForFastStart e w1 tempName = (w2, Inr processedFilePath)"
    and pr: "handlerUploadVideo_processed cfg e v mediaType aspectRatio processedFilePath w2
               = (w3, respondWithJSON code signedVideo)"
    and w': "w' = os_Remove processedFilePath w3"
    unfolding handlerUploadVideo_staged_def Let_def w1_def
    by (auto split: option.splits sum.splits prod.splits)
  have ar': "getVideoAspectRatio e (w\<lparr>files := (files w)(tempName \<mapsto> upload)\<rparr>) tempName
               = Inr aspectRatio"
    using ar getVideoAspectRatio_reads[of w1 tempName
        "w\<lparr>files := (files w)(tempName \<mapsto> upload)\<rparr>" e]
    by (simp add: w1_def)
  from pv obtain remuxed where
    ff: "ffmpeg e (Some upload) = Finished remuxed"
    and pp: "processedFilePath = tempName @ ''.processing''"
    and w2: "w2 = w1\<lparr>files := (files w1)(tempName @ ''.processing'' \<mapsto> remuxed),
                       effects := effects w1 @ [FileWritten (tempName @ ''.processing'') remuxed]\<rparr>"
    unfolding processVideoForFastStart_def Let_def w1_def
    by (auto split: ffmpeg_run.splits option.splits)
  from processed_json[OF pr] obtain processedFile randomBytes where
    f: "files w2 processedFilePath = Some processedFile"
    and rr: "rand_Read e 32 = Some randomBytes"
    and cd: "code = StatusOK"
    and w3: "w3 = w2\<lparr>effects := effects w2 @
               [ObjectPut (s3Bucket cfg)
                  (keyPrefix aspectRatio @ ''/'' @ EncodeToString e randomBytes @ ''.mp4'')
                  processedFile mediaType,
                VideoUpdated (v\<lparr>VideoURL := Some (s3Bucket cfg @ '','' @
                  keyPrefix aspectRatio @ ''/'' @ EncodeToString e randomBytes @ ''.mp4'')\<rparr>)]\<rparr>"
    by blast
  from f have pf: "processedFile = remuxed" by (simp add: w2 pp)
  have "effects w' = effects w @
               [FileWritten tempName upload,
                FileWritten (tempName @ ''.processing'') remuxed,
                ObjectPut (s3Bucket cfg)
                  (keyPrefix aspectRatio @ ''/'' @ EncodeToString e randomBytes @ ''.mp4'')
                  remuxed mediaType,
                VideoUpdated (v\<lparr>VideoURL := Some (s3Bucket cfg @ '','' @
                  keyPrefix aspectRatio @ ''/'' @ EncodeToString e randomBytes @ ''.mp4'')\<rparr>),
                FileRemoved (tempName @ ''.processing'')]"
    by (simp add: w' w3 w2 w1_def pf pp os_Remove_def)
  with ar' ff rr cd show ?thesis by blast
qed

lemma sample_env_simps:
  "uuid_Parse sample_env s = (if s = ''00000000-0000-0000-0000-000000000007'' then Some 7 else None)"
  "GetBearerToken sample_env h =
     (case map_of h ''Authorization'' of
        None \<Rightarrow> None
      | Some a \<Rightarrow> if take 7 a = ''Bearer '' then Some (drop 7 a) else None)"
  "ValidateJWT sample_env token secret =
     (if secret \<noteq> ''secret'' then None
      else if token = ''alice'' then Some 1
      else if token = ''bob'' then Some 2
      else None)"
  "GetVideo sample_env videoID = (if videoID = 7 then Some sample_video else None)"
  "ParseMediaType sample_env ct =
     (if ct = [] then None else Some (takeWhile (\<lambda>c. c \<noteq> CHR '';'') ct))"
  "CreateTemp sample_env = Some ''/tmp/tubely-upload.mp4123456''"
  "Copy sample_env upload = None"
  "ffprobe sample_env f = (case f of None \<Rightarrow> None | Some c \<Rightarrow> Some ''1280x720'')"
  "json_Unmarshal sample_env out =
     (if out = ''1280x720'' then Some [\<lparr>Width = 1280, Height = 720\<rparr>] else None)"
  "ffmpeg sample_env f = (case f of None \<Rightarrow> Aborted None | Some c \<Rightarrow> Finished (''moov'' @ c))"
  "Open sample_env name = True"
  "Seek sample_env = True"
  "rand_Read sample_env n = Some ''0123456789abcdef0123456789abcdef''"
  "EncodeToString sample_env b = ''MDEyMzQ1Njc4OWFiY2RlZjAxMjM0NTY3ODlhYmNkZWY''"
  "PutObject sample_env bucket key body contentType = True"
  "UpdateVideo sample_env v = True"
  "PresignGetObject sample_env bucket key expires =
     Some (''https://'' @ bucket @ ''.s3.amazonaws.com/'' @ key @ ''?X-Amz-Expires=3600'')"
  by (simp_all add: sample_env_def)

lemma sample_aspect:
  assumes "files w p = Some c"
  shows "getVideoAspectRatio sample_env w p = Inr ''16:9''"
  using getVideoAspectRatio_exact[where e = sample_env and w = w and filePath = p
      and s = "\<lparr>Width = 1280, Height = 720\<rparr>" and rest = "[]" and stdout = "''1280x720''"]
    assms
  by (simp add: sample_env_simps)

lemmas run_defs =
  handlerUploadVideo_staged_def processVideoForFastStart_def handlerUploadVideo_processed_def
  os_Open_def os_Remove_def keyPrefix_def Let_def

lemma sample_request_checks:
  "uuid_Parse sample_env (PathValue_videoID sample_request) = Some 7"
  "GetBearerToken sample_env (Header sample_request) = Some ''alice''"
  "ValidateJWT sample_env ''alice'' (jwtSecret sample_cfg) = Some 1"
  "GetVideo sample_env 7 = Some sample_video"
  "UserID sample_video = 1"
  "ParseMultipartForm (MaxBytesReader sample_request (2 ^ 30))
     = Some [(''video'', ''mdat'', ''video/mp4'')]"
  "FormFile [(''video'', ''mdat'', ''video/mp4'')] ''video'' = Some (''mdat'', ''video/mp4'')"
  "ParseMediaType sample_env ''video/mp4'' = Some ''video/mp4''"
  "CreateTemp sample_env = Some ''/tmp/tubely-upload.mp4123456''"
  by (simp_all add: sample_env_simps sample_request_def sample_cfg_def sample_video_def
        ParseMultipartForm_limited FormFile_def)

lemma sample_signed:
  "dbVideoToSignedVideo sample_env
     (sample_video\<lparr>VideoURL := Some (''tubely'' @ '','' @ ''landscape/MDEyMzQ1Njc4OWFiY2RlZjAxMjM0NTY3ODlhYmNkZWY.mp4'')\<rparr>)
   = (sample_video\<lparr>VideoURL := Some ''https://tubely.s3.amazonaws.com/landscape/MDEyMzQ1Njc4OWFiY2RlZjAxMjM0NTY3ODlhYmNkZWY.mp4?X-Amz-Expires=3600''\<rparr>, None)"
  by (subst dbVideoToSignedVideo_locator) (simp_all add: generatePresignedURL_def sample_env_simps)

lemma sample_staged:
  "handlerUploadVideo_staged sample_cfg sample_env sample_video ''video/mp4'' ''mdat''
     ''/tmp/tubely-upload.mp4123456''
     \<lparr>files = [''/tmp/tubely-upload.mp4123456'' \<mapsto> []],
      effects = [TempCreated ''/tmp/tubely-upload.mp4123456'']\<rparr>
   = (\<lparr>files = [''/tmp/tubely-upload.mp4123456'' \<mapsto> ''mdat''],
       effects =
         [TempCreated ''/tmp/tubely-upload.mp4123456'',
          FileWritten ''/tmp/tubely-upload.mp4123456'' ''mdat'',
          FileWritten ''/tmp/tubely-upload.mp4123456.processing'' ''moovmdat'',
          ObjectPut ''tubely'' ''landscape/MDEyMzQ1Njc4OWFiY2RlZjAxMjM0NTY3ODlhYmNkZWY.mp4''
            ''moovmdat'' ''video/mp4'',
          VideoUpdated (sample_video\<lparr>VideoURL :=
            Some ''tubely,landscape/MDEyMzQ1Njc4OWFiY2RlZjAxMjM0NTY3ODlhYmNkZWY.mp4''\<rparr>),
          FileRemoved ''/tmp/tubely-upload.mp4123456.processing'']\<rparr>,
      respondWithJSON StatusOK (sample_video\<lparr>VideoURL :=
        Some ''https://tubely.s3.amazonaws.com/landscape/MDEyMzQ1Njc4OWFiY2RlZjAxMjM0NTY3ODlhYmNkZWY.mp4?X-Amz-Expires=3600''\<rparr>))"
  using sample_signed
  by (simp add: run_defs sample_aspect sample_env_simps sample_cfg_def)


lemma sample_run:
  "handlerUploadVideo sample_cfg sample_env sample_request sample_world
   = (\<lparr>files = Map.empty,
       effects =
         [TempCreated ''/tmp/tubely-upload.mp4123456'',
          FileWritten ''/tmp/tubely-upload.mp4123456'' ''mdat'',
          FileWritten ''/tmp/tubely-upload.mp4123456.processing'' ''moovmdat'',
          ObjectPut ''tubely'' ''landscape/MDEyMzQ1Njc4OWFiY2RlZjAxMjM0NTY3ODlhYmNkZWY.mp4''
            ''moovmdat'' ''video/mp4'',
          VideoUpdated (sample_video\<lparr>VideoURL :=
            Some ''tubely,landscape/MDEyMzQ1Njc4OWFiY2RlZjAxMjM0NTY3ODlhYmNkZWY.mp4''\<rparr>),
          FileRemoved ''/tmp/tubely-upload.mp4123456.processing'',
          FileRemoved ''/tmp/tubely-upload.mp4123456'']\<rparr>,
      respondWithJSON StatusOK (sample_video\<lparr>VideoURL :=
        Some ''https://tubely.s3.amazonaws.com/landscape/MDEyMzQ1Njc4OWFiY2RlZjAxMjM0NTY3ODlhYmNkZWY.mp4?X-Amz-Expires=3600''\<rparr>))"
  by (subst handler_staged[OF sample_request_checks])
     (simp add: sample_world_def sample_staged os_Remove_def)

section \<open>The claim about the uploaded object\<close>

text \<open>The sample upload of a portrait video, and the sample upload declared with a
  parameter after the media type.\<close>

lemma portrait_aspect:
  assumes "files w p = Some c"
  shows "getVideoAspectRatio (sample_env\<lparr>json_Unmarshal := \<lambda>out. Some [\<lparr>Width = 720, Height = 1280\<rparr>]\<rparr>) w p = Inr ''9:16''"
  using getVideoAspectRatio_exact[where e = "(sample_env\<lparr>json_Unmarshal := \<lambda>out. Some [\<lparr>Width = 720, Height = 1280\<rparr>]\<rparr>)" and w = w and filePath = p
      and s = "\<lparr>Width = 720, Height = 1280\<rparr>" and rest = "[]" and stdout = "''1280x720''"]
    assms
  by (simp add: sample_env_simps)

lemma portrait_checks:
  "uuid_Parse (sample_env\<lparr>json_Unmarshal := \<lambda>out. Some [\<lparr>Width = 720, Height = 1280\<rparr>]\<rparr>) (PathValue_videoID sample_request) = Some 7"
  "GetBearerToken (sample_env\<lparr>json_Unmarshal := \<lambda>out. Some [\<lparr>Width = 720, Height = 1280\<rparr>]\<rparr>) (Header sample_request) = Some ''alice''"
  "ValidateJWT (sample_env\<lparr>json_Unmarshal := \<lambda>out. Some [\<lparr>Width = 720, Height = 1280\<rparr>]\<rparr>) ''alice'' (jwtSecret sample_cfg) = Some 1"
  "GetVideo (sample_env\<lparr>json_Unmarshal := \<lambda>out. Some [\<lparr>Width = 720, Height = 1280\<rparr>]\<rparr>) 7 = Some sample_video"
  "UserID sample_video = 1"
  "ParseMultipartForm (MaxBytesReader sample_request (2 ^ 30))
     = Some [(''video'', ''mdat'', ''video/mp4'')]"
  "FormFile [(''video'', ''mdat'', ''video/mp4'')] ''video'' = Some (''mdat'', ''video/mp4'')"
  "ParseMediaType (sample_env\<lparr>json_Unmarshal := \<lambda>out. Some [\<lparr>Width = 720, Height = 1280\<rparr>]\<rparr>) ''video/mp4'' = Some ''video/mp4''"
  "CreateTemp (sample_env\<lparr>json_Unmarshal := \<lambda>out. Some [\<lparr>Width = 720, Height = 1280\<rparr>]\<rparr>) = Some ''/tmp/tubely-upload.mp4123456''"
  by (simp_all add: sample_env_simps sample_request_def sample_cfg_def sample_video_def
        ParseMultipartForm_limited FormFile_def)

lemma portrait_signed:
  "dbVideoToSignedVideo (sample_env\<lparr>json_Unmarshal := \<lambda>out. Some [\<lparr>Width = 720, Height = 1280\<rparr>]\<rparr>)
     (sample_video\<lparr>VideoURL := Some (''tubely'' @ '','' @ ''portrait/MDEyMzQ1Njc4OWFiY2RlZjAxMjM0NTY3ODlhYmNkZWY.mp4'')\<rparr>)
   = (sample_video\<lparr>VideoURL := Some ''https://tubely.s3.amazonaws.com/portrait/MDEyMzQ1Njc4OWFiY2RlZjAxMjM0NTY3ODlhYmNkZWY.mp4?X-Amz-Expires=3600''\<rparr>, None)"
  by (subst dbVideoToSignedVideo_locator) (simp_all add: generatePresignedURL_def sample_env_simps)

lemma portrait_run:
  "handlerUploadVideo sample_cfg (sample_env\<lparr>json_Unmarshal := \<lambda>out. Some [\<lparr>Width = 720, Height = 1280\<rparr>]\<rparr>) sample_request sample_world
   = (\<lparr>files = Map.empty,
       effects =
         [TempCreated ''/tmp/tubely-upload.mp4123456'',
          FileWritten ''/tmp/tubely-upload.mp4123456'' ''mdat'',
          FileWritten ''/tmp/tubely-upload.mp4123456.processing'' ''moovmdat'',
          ObjectPut ''tubely'' ''portrait/MDEyMzQ1Njc4OWFiY2RlZjAxMjM0NTY3ODlhYmNkZWY.mp4''
            ''moovmdat'' ''video/mp4'',
          VideoUpdated (sample_video\<lparr>VideoURL :=
            Some ''tubely,portrait/MDEyMzQ1Njc4OWFiY2RlZjAxMjM0NTY3ODlhYmNkZWY.mp4''\<rparr>),
          FileRemoved ''/tmp/tubely-upload.mp4123456.processing'',
          FileRemoved ''/tmp/tubely-upload.mp4123456'']\<rparr>,
      respondWithJSON StatusOK (sample_video\<lparr>VideoURL :=
        Some ''https://tubely.s3.amazonaws.com/portrait/MDEyMzQ1Njc4OWFiY2RlZjAxMjM0NTY3ODlhYmNkZWY.mp4?X-Amz-Expires=3600''\<rparr>))"
  using portrait_signed
  by (subst handler_staged[OF portrait_checks])
     (simp add: sample_world_def run_defs portrait_aspect sample_env_simps sample_cfg_def)

lemma declared_checks:
  "uuid_Parse sample_env (PathValue_videoID (sample_request\<lparr>form := Some [(''video'', ''mdat'', ''video/mp4;codecs=avc1'')]\<rparr>)) = Some 7"
  "GetBearerToken sample_env (Header (sample_request\<lparr>form := Some [(''video'', ''mdat'', ''video/mp4;codecs=avc1'')]\<rparr>)) = Some ''alice''"
  "ValidateJWT sample_env ''alice'' (jwtSecret sample_cfg) = Some 1"
  "GetVideo sample_env 7 = Some sample_video"
  "UserID sample_video = 1"
  "ParseMultipartForm (MaxBytesReader (sample_request\<lparr>form := Some [(''video'', ''mdat'', ''video/mp4;codecs=avc1'')]\<rparr>) (2 ^ 30))
     = Some [(''video'', ''mdat'', ''video/mp4;codecs=avc1'')]"
  "FormFile [(''video'', ''mdat'', ''video/mp4;codecs=avc1'')] ''video''
     = Some (''mdat'', ''video/mp4;codecs=avc1'')"
  "ParseMediaType sample_env ''video/mp4;codecs=avc1'' = Some ''video/mp4''"
  "CreateTemp sample_env = Some ''/tmp/tubely-upload.mp4123456''"
  by (simp_all add: sample_env_simps sample_request_def sample_cfg_def sample_video_def
        ParseMultipartForm_limited FormFile_def)

lemma declared_run:
  "handlerUploadVideo sample_cfg sample_env (sample_request\<lparr>form := Some [(''video'', ''mdat'', ''video/mp4;codecs=avc1'')]\<rparr>) sample_world
   = (\<lparr>files = Map.empty,
       effects =
         [TempCreated ''/tmp/tubely-upload.mp4123456'',
          FileWritten ''/tmp/tubely-upload.mp4123456'' ''mdat'',
          FileWritten ''/tmp/tubely-upload.mp4123456.processing'' ''moovmdat'',
          ObjectPut ''tubely'' ''landscape/MDEyMzQ1Njc4OWFiY2RlZjAxMjM0NTY3ODlhYmNkZWY.mp4''
            ''moovmdat'' ''video/mp4'',
          VideoUpdated (sample_video\<lparr>VideoURL :=
            Some ''tubely,landscape/MDEyMzQ1Njc4OWFiY2RlZjAxMjM0NTY3ODlhYmNkZWY.mp4''\<rparr>),
          FileRemoved ''/tmp/tubely-upload.mp4123456.processing'',
          FileRemoved ''/tmp/tubely-upload.mp4123456'']\<rparr>,
      respondWithJSON StatusOK (sample_video\<lparr>VideoURL :=
        Some ''https://tubely.s3.amazonaws.com/landscape/MDEyMzQ1Njc4OWFiY2RlZjAxMjM0NTY3ODlhYmNkZWY.mp4?X-Amz-Expires=3600''\<rparr>))"
  by (subst handler_staged[OF declared_checks])
     (simp add: sample_world_def sample_staged os_Remove_def)

text \<open>
  C5, as the claim states it, fails in its last part. The upload whose video part declares the
  content type \<open>video/mp4;codecs=avc1\<close> succeeds, and the object is put with the content type
  \<open>video/mp4\<close>: what is attached is the media type that \<^verbatim>\<open>mime.ParseMediaType\<close>
  returned for the declared content type, not the declared content type.
\<close>

theorem declared_content_type_not_attached:
  "form (sample_request\<lparr>form := Some [(''video'', ''mdat'', ''video/mp4;codecs=avc1'')]\<rparr>) = Some [(''video'', ''mdat'', ''video/mp4;codecs=avc1'')]
   \<and> handlerUploadVideo sample_cfg sample_env (sample_request\<lparr>form := Some [(''video'', ''mdat'', ''video/mp4;codecs=avc1'')]\<rparr>) sample_world
       = (\<lparr>files = Map.empty,
       effects =
         [TempCreated ''/tmp/tubely-upload.mp4123456'',
          FileWritten ''/tmp/tubely-upload.mp4123456'' ''mdat'',
          FileWritten ''/tmp/tubely-upload.mp4123456.processing'' ''moovmdat'',
          ObjectPut ''tubely'' ''landscape/MDEyMzQ1Njc4OWFiY2RlZjAxMjM0NTY3ODlhYmNkZWY.mp4''
            ''moovmdat'' ''video/mp4'',
          VideoUpdated (sample_video\<lparr>VideoURL :=
            Some ''tubely,landscape/MDEyMzQ1Njc4OWFiY2RlZjAxMjM0NTY3ODlhYmNkZWY.mp4''\<rparr>),
          FileRemoved ''/tmp/tubely-upload.mp4123456.processing'',
          FileRemoved ''/tmp/tubely-upload.mp4123456'']\<rparr>,
      respondWithJSON StatusOK (sample_video\<lparr>VideoURL :=
        Some ''https://tubely.s3.amazonaws.com/landscape/MDEyMzQ1Njc4OWFiY2RlZjAxMjM0NTY3ODlhYmNkZWY.mp4?X-Amz-Expires=3600''\<rparr>))
   \<and> ''video/mp4;codecs=avc1'' \<noteq> ''video/mp4''"
  using declared_run by simp

text \<open>
  C5, amended. In every call that ends in the JSON response, the handler has put exactly one
  object. Its key is the prefix that the aspect ratio probed from the staged upload selects
  (\<open>landscape\<close> for \<open>16:9\<close>, \<open>portrait\<close> for \<open>9:16\<close>, \<open>other\<close> otherwise), a slash, the
  encoded random bytes and \<open>.mp4\<close>. Its body is what ffmpeg wrote for the staged upload (the
  remuxed file, not the upload itself). Its content type is \<open>video/mp4\<close>, the media type
  parsed from the declared content type. The effects of the call are exactly: the temporary
  file created and written, the remuxed file written, the object put, the record updated with
  the bucket and that key, and the two files removed.
\<close>

theorem upload_is_remuxed_file:
  assumes "handlerUploadVideo cfg e r w = (w', respondWithJSON code signedVideo)"
  shows "\<exists>parts upload contentType tempName aspectRatio remuxed randomBytes v.
           ParseMultipartForm (MaxBytesReader r (2 ^ 30)) = Some parts
         \<and> FormFile parts ''video'' = Some (upload, contentType)
         \<and> ParseMediaType e contentType = Some ''video/mp4''
         \<and> CreateTemp e = Some tempName
         \<and> getVideoAspectRatio e (w\<lparr>files := (files w)(tempName \<mapsto> upload)\<rparr>) tempName
             = Inr aspectRatio
         \<and> ffmpeg e (Some upload) = Finished remuxed
         \<and> rand_Read e 32 = Some randomBytes
         \<and> code = StatusOK
         \<and> effects w' = effects w @
               [TempCreated tempName,
                FileWritten tempName upload,
                FileWritten (tempName @ ''.processing'') remuxed,
                ObjectPut (s3Bucket cfg)
                  ((if aspectRatio = ''16:9'' then ''landscape''
                    else if aspectRatio = ''9:16'' then ''portrait''
                    else ''other'')
                   @ ''/'' @ EncodeToString e randomBytes @ ''.mp4'')
                  remuxed ''video/mp4'',
                VideoUpdated (v\<lparr>VideoURL := Some (s3Bucket cfg @ '','' @
                  ((if aspectRatio = ''16:9'' then ''landscape''
                    else if aspectRatio = ''9:16'' then ''portrait''
                    else ''other'')
                   @ ''/'' @ EncodeToString e randomBytes @ ''.mp4''))\<rparr>),
                FileRemoved (tempName @ ''.processing''),
                FileRemoved tempName]"
proof -
  have "snd (handlerUploadVideo cfg e r w) = respondWithJSON code signedVideo"
    using assms by simp
  from handler_json_passed_checks[OF this]
  obtain videoID token v parts upload contentType tempName where
    1: "uuid_Parse e (PathValue_videoID r) = Some videoID"
    and 2: "GetBearerToken e (Header r) = Some token"
    and 3: "ValidateJWT e token (jwtSecret cfg) = Some (UserID v)"
    and 4: "GetVideo e videoID = Some v"
    and 6: "ParseMultipartForm (MaxBytesReader r (2 ^ 30)) = Some parts"
    and 7: "FormFile parts ''video'' = Some (upload, contentType)"
    and 8: "ParseMediaType e contentType = Some ''video/mp4''"
    and 9: "CreateTemp e = Some tempName"
    by blast
  define w1 where "w1 = w\<lparr>files := (files w)(tempName \<mapsto> []),
                           effects := effects w @ [TempCreated tempName]\<rparr>"
  obtain w2 resp where st:
    "handlerUploadVideo_staged cfg e v ''video/mp4'' upload tempName w1 = (w2, resp)"
    by (cases "handlerUploadVideo_staged cfg e v ''video/mp4'' upload tempName w1")
  have "handlerUploadVideo cfg e r w = (os_Remove tempName w2, resp)"
    using handler_staged[OF 1 2 3 4 refl 6 7 8 9, of w] st by (simp add: w1_def Let_def)
  with assms have w': "w' = os_Remove tempName w2"
    and resp: "resp = respondWithJSON code signedVideo"
    by simp_all
  from staged_json[OF st[unfolded resp]] obtain aspectRatio remuxed randomBytes where
    ar: "getVideoAspectRatio e (w1\<lparr>files := (files w1)(tempName \<mapsto> upload)\<rparr>) tempName
           = Inr aspectRatio"
    and ff: "ffmpeg e (Some upload) = Finished remuxed"
    and rr: "rand_Read e 32 = Some randomBytes"
    and cd: "code = StatusOK"
    and ef: "effects w2 = effects w1 @
               [FileWritten tempName upload,
                FileWritten (tempName @ ''.processing'') remuxed,
                ObjectPut (s3Bucket cfg)
                  (keyPrefix aspectRatio @ ''/'' @ EncodeToString e randomBytes @ ''.mp4'')
                  remuxed ''video/mp4'',
                VideoUpdated (v\<lparr>VideoURL := Some (s3Bucket cfg @ '','' @
                  keyPrefix aspectRatio @ ''/'' @ EncodeToString e randomBytes @ ''.mp4'')\<rparr>),
                FileRemoved (tempName @ ''.processing'')]"
    by blast
  have ar': "getVideoAspectRatio e (w\<lparr>files := (files w)(tempName \<mapsto> upload)\<rparr>) tempName
               = Inr aspectRatio"
    using ar getVideoAspectRatio_reads[of "w1\<lparr>files := (files w1)(tempName \<mapsto> upload)\<rparr>"
        tempName "w\<lparr>files := (files w)(tempName \<mapsto> upload)\<rparr>" e]
    by (simp add: w1_def)
  have kp: "keyPrefix aspectRatio =
              (if aspectRatio = ''16:9'' then ''landscape''
               else if aspectRatio = ''9:16'' then ''portrait''
               else ''other'')"
    unfolding keyPrefix_def by (rule refl)
  have "effects w' = effects w @
               [TempCreated tempName,
                FileWritten tempName upload,
                FileWritten (tempName @ ''.processing'') remuxed,
                ObjectPut (s3Bucket cfg)
                  ((if aspectRatio = ''16:9'' then ''landscape''
                    else if aspectRatio = ''9:16'' then ''portrait''
                    else ''other'')
                   @ ''/'' @ EncodeToString e randomBytes @ ''.mp4'')
                  remuxed ''video/mp4'',
                VideoUpdated (v\<lparr>VideoURL := Some (s3Bucket cfg @ '','' @
                  ((if aspectRatio = ''16:9'' then ''landscape''
                    else if aspectRatio = ''9:16'' then ''portrait''
                    else ''other'')
                   @ ''/'' @ EncodeToString e randomBytes @ ''.mp4''))\<rparr>),
                FileRemoved (tempName @ ''.processing''),
                FileRemoved tempName]"
    unfolding kp[symmetric] by (simp add: w' os_Remove_def ef w1_def)
  with 6 7 8 9 ar' ff rr cd show ?thesis by blast
qed

theorem upload_is_remuxed_file_witness:
  "handlerUploadVideo sample_cfg sample_env sample_request sample_world
   = (\<lparr>files = Map.empty,
       effects =
         [TempCreated ''/tmp/tubely-upload.mp4123456'',
          FileWritten ''/tmp/tubely-upload.mp4123456'' ''mdat'',
          FileWritten ''/tmp/tubely-upload.mp4123456.processing'' ''moovmdat'',
          ObjectPut ''tubely'' ''landscape/MDEyMzQ1Njc4OWFiY2RlZjAxMjM0NTY3ODlhYmNkZWY.mp4''
            ''moovmdat'' ''video/mp4'',
          VideoUpdated (sample_video\<lparr>VideoURL :=
            Some ''tubely,landscape/MDEyMzQ1Njc4OWFiY2RlZjAxMjM0NTY3ODlhYmNkZWY.mp4''\<rparr>),
          FileRemoved ''/tmp/tubely-upload.mp4123456.processing'',
          FileRemoved ''/tmp/tubely-upload.mp4123456'']\<rparr>,
      respondWithJSON StatusOK (sample_video\<lparr>VideoURL :=
        Some ''https://tubely.s3.amazonaws.com/landscape/MDEyMzQ1Njc4OWFiY2RlZjAxMjM0NTY3ODlhYmNkZWY.mp4?X-Amz-Expires=3600''\<rparr>))
   \<and> handlerUploadVideo sample_cfg (sample_env\<lparr>json_Unmarshal := \<lambda>out. Some [\<lparr>Width = 720, Height = 1280\<rparr>]\<rparr>) sample_request sample_world
   = (\<lparr>files = Map.empty,
       effects =
         [TempCreated ''/tmp/tubely-upload.mp4123456'',
          FileWritten ''/tmp/tubely-upload.mp4123456'' ''mdat'',
          FileWritten ''/tmp/tubely-upload.mp4123456.processing'' ''moovmdat'',
          ObjectPut ''tubely'' ''portrait/MDEyMzQ1Njc4OWFiY2RlZjAxMjM0NTY3ODlhYmNkZWY.mp4''
            ''moovmdat'' ''video/mp4'',
          VideoUpdated (sample_video\<lparr>VideoURL :=
            Some ''tubely,portrait/MDEyMzQ1Njc4OWFiY2RlZjAxMjM0NTY3ODlhYmNkZWY.mp4''\<rparr>),
          FileRemoved ''/tmp/tubely-upload.mp4123456.processing'',
          FileRemoved ''/tmp/tubely-upload.mp4123456'']\<rparr>,
      respondWithJSON StatusOK (sample_video\<lparr>VideoURL :=
        Some ''https://tubely.s3.amazonaws.com/portrait/MDEyMzQ1Njc4OWFiY2RlZjAxMjM0NTY3ODlhYmNkZWY.mp4?X-Amz-Expires=3600''\<rparr>))
   \<and> (\<exists>aspectRatio remuxed.
         getVideoAspectRatio sample_env
           (sample_world\<lparr>files := (files sample_world)(''/tmp/tubely-upload.mp4123456'' \<mapsto> ''mdat'')\<rparr>)
           ''/tmp/tubely-upload.mp4123456'' = Inr aspectRatio
       \<and> ffmpeg sample_env (Some ''mdat'') = Finished remuxed
       \<and> ObjectPut ''tubely''
            ((if aspectRatio = ''16:9'' then ''landscape''
              else if aspectRatio = ''9:16'' then ''portrait'' else ''other'')
             @ ''/MDEyMzQ1Njc4OWFiY2RlZjAxMjM0NTY3ODlhYmNkZWY.mp4'')
            remuxed ''video/mp4''
          = ObjectPut ''tubely'' ''landscape/MDEyMzQ1Njc4OWFiY2RlZjAxMjM0NTY3ODlhYmNkZWY.mp4'' ''moovmdat'' ''video/mp4'')
   \<and> (\<exists>aspectRatio remuxed.
         getVideoAspectRatio (sample_env\<lparr>json_Unmarshal := \<lambda>out. Some [\<lparr>Width = 720, Height = 1280\<rparr>]\<rparr>)
           (sample_world\<lparr>files := (files sample_world)(''/tmp/tubely-upload.mp4123456'' \<mapsto> ''mdat'')\<rparr>)
           ''/tmp/tubely-upload.mp4123456'' = Inr aspectRatio
       \<and> ffmpeg (sample_env\<lparr>json_Unmarshal := \<lambda>out. Some [\<lparr>Width = 720, Height = 1280\<rparr>]\<rparr>) (Some ''mdat'') = Finished remuxed
       \<and> ObjectPut ''tubely''
            ((if aspectRatio = ''16:9'' then ''landscape''
              else if aspectRatio = ''9:16'' then ''portrait'' else ''other'')
             @ ''/MDEyMzQ1Njc4OWFiY2RlZjAxMjM0NTY3ODlhYmNkZWY.mp4'')
            remuxed ''video/mp4''
          = ObjectPut ''tubely'' ''portrait/MDEyMzQ1Njc4OWFiY2RlZjAxMjM0NTY3ODlhYmNkZWY.mp4'' ''moovmdat'' ''video/mp4'')"
proof -
  have a: "\<exists>aspectRatio remuxed.
         getVideoAspectRatio sample_env
           (sample_world\<lparr>files := (files sample_world)(''/tmp/tubely-upload.mp4123456'' \<mapsto> ''mdat'')\<rparr>)
           ''/tmp/tubely-upload.mp4123456'' = Inr aspectRatio
       \<and> ffmpeg sample_env (Some ''mdat'') = Finished remuxed
       \<and> ObjectPut ''tubely''
            ((if aspectRatio = ''16:9'' then ''landscape''
              else if aspectRatio = ''9:16'' then ''portrait'' else ''other'')
             @ ''/MDEyMzQ1Njc4OWFiY2RlZjAxMjM0NTY3ODlhYmNkZWY.mp4'')
            remuxed ''video/mp4''
          = ObjectPut ''tubely'' ''landscape/MDEyMzQ1Njc4OWFiY2RlZjAxMjM0NTY3ODlhYmNkZWY.mp4'' ''moovmdat'' ''video/mp4''"
  proof -
    from upload_is_remuxed_file[OF sample_run]
    obtain parts upload contentType tempName aspectRatio remuxed randomBytes v where
      p: "ParseMultipartForm (MaxBytesReader sample_request (2 ^ 30)) = Some parts"
      and f: "FormFile parts ''video'' = Some (upload, contentType)"
      and t: "CreateTemp sample_env = Some tempName"
      and ar: "getVideoAspectRatio sample_env
                 (sample_world\<lparr>files := (files sample_world)(tempName \<mapsto> upload)\<rparr>) tempName
               = Inr aspectRatio"
      and ff: "ffmpeg sample_env (Some upload) = Finished remuxed"
      and rr: "rand_Read sample_env 32 = Some randomBytes"
      and ef: "
          [TempCreated ''/tmp/tubely-upload.mp4123456'',
           FileWritten ''/tmp/tubely-upload.mp4123456'' ''mdat'',
           FileWritten ''/tmp/tubely-upload.mp4123456.processing'' ''moovmdat'',
           ObjectPut ''tubely'' ''landscape/MDEyMzQ1Njc4OWFiY2RlZjAxMjM0NTY3ODlhYmNkZWY.mp4''
             ''moovmdat'' ''video/mp4'',
           VideoUpdated (sample_video\<lparr>VideoURL :=
             Some ''tubely,landscape/MDEyMzQ1Njc4OWFiY2RlZjAxMjM0NTY3ODlhYmNkZWY.mp4''\<rparr>),
           FileRemoved ''/tmp/tubely-upload.mp4123456.processing'',
           FileRemoved ''/tmp/tubely-upload.mp4123456'']
        = effects sample_world @
               [TempCreated tempName,
                FileWritten tempName upload,
                FileWritten (tempName @ ''.processing'') remuxed,
                ObjectPut (s3Bucket sample_cfg)
                  ((if aspectRatio = ''16:9'' then ''landscape''
                    else if aspectRatio = ''9:16'' then ''portrait''
                    else ''other'')
                   @ ''/'' @ EncodeToString sample_env randomBytes @ ''.mp4'')
                  remuxed ''video/mp4'',
                VideoUpdated (v\<lparr>VideoURL := Some (s3Bucket sample_cfg @ '','' @
                  ((if aspectRatio = ''16:9'' then ''landscape''
                    else if aspectRatio = ''9:16'' then ''portrait''
                    else ''other'')
                   @ ''/'' @ EncodeToString sample_env randomBytes @ ''.mp4''))\<rparr>),
                FileRemoved (tempName @ ''.processing''),
                FileRemoved tempName]"
      by (auto simp del: append.simps)
    have u: "upload = ''mdat''" using p f sample_request_checks(6,7) by simp
    have n: "tempName = ''/tmp/tubely-upload.mp4123456''" using t sample_request_checks(9) by simp
    from rr have r: "randomBytes = ''0123456789abcdef0123456789abcdef''"
      by (simp add: sample_env_simps)
    from ef have "ObjectPut ''tubely''
            ((if aspectRatio = ''16:9'' then ''landscape''
              else if aspectRatio = ''9:16'' then ''portrait'' else ''other'')
             @ ''/MDEyMzQ1Njc4OWFiY2RlZjAxMjM0NTY3ODlhYmNkZWY.mp4'')
            remuxed ''video/mp4''
          = ObjectPut ''tubely'' ''landscape/MDEyMzQ1Njc4OWFiY2RlZjAxMjM0NTY3ODlhYmNkZWY.mp4'' ''moovmdat'' ''video/mp4''"
      by (auto simp add: sample_world_def sample_cfg_def sample_env_simps split: if_splits)
    with ar ff u n show ?thesis by blast
  qed
  have b: "\<exists>aspectRatio remuxed.
         getVideoAspectRatio (sample_env\<lparr>json_Unmarshal := \<lambda>out. Some [\<lparr>Width = 720, Height = 1280\<rparr>]\<rparr>)
           (sample_world\<lparr>files := (files sample_world)(''/tmp/tubely-upload.mp4123456'' \<mapsto> ''mdat'')\<rparr>)
           ''/tmp/tubely-upload.mp4123456'' = Inr aspectRatio
       \<and> ffmpeg (sample_env\<lparr>json_Unmarshal := \<lambda>out. Some [\<lparr>Width = 720, Height = 1280\<rparr>]\<rparr>) (Some ''mdat'') = Finished remuxed
       \<and> ObjectPut ''tubely''
            ((if aspectRatio = ''16:9'' then ''landscape''
              else if aspectRatio = ''9:16'' then ''portrait'' else ''other'')
             @ ''/MDEyMzQ1Njc4OWFiY2RlZjAxMjM0NTY3ODlhYmNkZWY.mp4'')
            remuxed ''video/mp4''
          = ObjectPut ''tubely'' ''portrait/MDEyMzQ1Njc4OWFiY2RlZjAxMjM0NTY3ODlhYmNkZWY.mp4'' ''moovmdat'' ''video/mp4''"
  proof -
    from upload_is_remuxed_file[OF portrait_run]
    obtain parts upload contentType tempName aspectRatio remuxed randomBytes v where
      p: "ParseMultipartForm (MaxBytesReader sample_request (2 ^ 30)) = Some parts"
      and f: "FormFile parts ''video'' = Some (upload, contentType)"
      and t: "CreateTemp (sample_env\<lparr>json_Unmarshal := \<lambda>out. Some [\<lparr>Width = 720, Height = 1280\<rparr>]\<rparr>) = Some tempName"
      and ar: "getVideoAspectRatio (sample_env\<lparr>json_Unmarshal := \<lambda>out. Some [\<lparr>Width = 720, Height = 1280\<rparr>]\<rparr>)
                 (sample_world\<lparr>files := (files sample_world)(tempName \<mapsto> upload)\<rparr>) tempName
               = Inr aspectRatio"
      and ff: "ffmpeg (sample_env\<lparr>json_Unmarshal := \<lambda>out. Some [\<lparr>Width = 720, Height = 1280\<rparr>]\<rparr>) (Some upload) = Finished remuxed"
      and rr: "rand_Read (sample_env\<lparr>json_Unmarshal := \<lambda>out. Some [\<lparr>Width = 720, Height = 1280\<rparr>]\<rparr>) 32 = Some randomBytes"
      and ef: "
          [TempCreated ''/tmp/tubely-upload.mp4123456'',
           FileWritten ''/tmp/tubely-upload.mp4123456'' ''mdat'',
           FileWritten ''/tmp/tubely-upload.mp4123456.processing'' ''moovmdat'',
           ObjectPut ''tubely'' ''portrait/MDEyMzQ1Njc4OWFiY2RlZjAxMjM0NTY3ODlhYmNkZWY.mp4''
             ''moovmdat'' ''video/mp4'',
           VideoUpdated (sample_video\<lparr>VideoURL :=
             Some ''tubely,portrait/MDEyMzQ1Njc4OWFiY2RlZjAxMjM0NTY3ODlhYmNkZWY.mp4''\<rparr>),
           FileRemoved ''/tmp/tubely-upload.mp4123456.processing'',
           FileRemoved ''/tmp/tubely-upload.mp4123456'']
        = effects sample_world @
               [TempCreated tempName,
                FileWritten tempName upload,
                FileWritten (tempName @ ''.processing'') remuxed,
                ObjectPut (s3Bucket sample_cfg)
                  ((if aspectRatio = ''16:9'' then ''landscape''
                    else if aspectRatio = ''9:16'' then ''portrait''
                    else ''other'')
                   @ ''/'' @ EncodeToString (sample_env\<lparr>json_Unmarshal := \<lambda>out. Some [\<lparr>Width = 720, Height = 1280\<rparr>]\<rparr>) randomBytes @ ''.mp4'')
                  remuxed ''video/mp4'',
                VideoUpdated (v\<lparr>VideoURL := Some (s3Bucket sample_cfg @ '','' @
                  ((if aspectRatio = ''16:9'' then ''landscape''
                    else if aspectRatio = ''9:16'' then ''portrait''
                    else ''other'')
                   @ ''/'' @ EncodeToString (sample_env\<lparr>json_Unmarshal := \<lambda>out. Some [\<lparr>Width = 720, Height = 1280\<rparr>]\<rparr>) randomBytes @ ''.mp4''))\<rparr>),
                FileRemoved (tempName @ ''.processing''),
                FileRemoved tempName]"
      by (auto simp del: append.simps)
    have u: "upload = ''mdat''" using p f portrait_checks(6,7) by simp
    have n: "tempName = ''/tmp/tubely-upload.mp4123456''" using t portrait_checks(9) by simp
    from ef have "ObjectPut ''tubely''
            ((if aspectRatio = ''16:9'' then ''landscape''
              else if aspectRatio = ''9:16'' then ''portrait'' else ''other'')
             @ ''/MDEyMzQ1Njc4OWFiY2RlZjAxMjM0NTY3ODlhYmNkZWY.mp4'')
            remuxed ''video/mp4''
          = ObjectPut ''tubely'' ''portrait/MDEyMzQ1Njc4OWFiY2RlZjAxMjM0NTY3ODlhYmNkZWY.mp4'' ''moovmdat'' ''video/mp4''"
      by (auto simp add: sample_world_def sample_cfg_def sample_env_simps split: if_splits)
    with ar ff u n show ?thesis by blast
  qed
  from sample_run portrait_run a b show ?thesis by (intro conjI)
qed

section \<open>Failures after the upload, and during the remux\<close>

lemma sample_aspect_variant:
  assumes "files w p = Some c"
    and "ffprobe e = ffprobe sample_env" "json_Unmarshal e = json_Unmarshal sample_env"
  shows "getVideoAspectRatio e w p = Inr ''16:9''"
proof -
  have "getVideoAspectRatio e w p = getVideoAspectRatio sample_env w p"
    unfolding getVideoAspectRatio_def assms(2,3) by (rule refl)
  then show ?thesis using sample_aspect[OF assms(1)] by simp
qed

lemma presign_fails_checks:
  "uuid_Parse (sample_env\<lparr>PresignGetObject := \<lambda>bucket key expires. None\<rparr>)
     (PathValue_videoID sample_request) = Some 7"
  "GetBearerToken (sample_env\<lparr>PresignGetObject := \<lambda>bucket key expires. None\<rparr>)
     (Header sample_request) = Some ''alice''"
  "ValidateJWT (sample_env\<lparr>PresignGetObject := \<lambda>bucket key expires. None\<rparr>)
     ''alice'' (jwtSecret sample_cfg) = Some 1"
  "GetVideo (sample_env\<lparr>PresignGetObject := \<lambda>bucket key expires. None\<rparr>) 7
     = Some sample_video"
  "UserID sample_video = 1"
  "ParseMultipartForm (MaxBytesReader sample_request (2 ^ 30))
     = Some [(''video'', ''mdat'', ''video/mp4'')]"
  "FormFile [(''video'', ''mdat'', ''video/mp4'')] ''video'' = Some (''mdat'', ''video/mp4'')"
  "ParseMediaType (sample_env\<lparr>PresignGetObject := \<lambda>bucket key expires. None\<rparr>)
     ''video/mp4'' = Some ''video/mp4''"
  "CreateTemp (sample_env\<lparr>PresignGetObject := \<lambda>bucket key expires. None\<rparr>)
     = Some ''/tmp/tubely-upload.mp4123456''"
  by (simp_all add: sample_env_simps sample_request_def sample_cfg_def sample_video_def
        ParseMultipartForm_limited FormFile_def)

lemma presign_fails_signed:
  "dbVideoToSignedVideo (sample_env\<lparr>PresignGetObject := \<lambda>bucket key expires. None\<rparr>)
     (sample_video\<lparr>VideoURL := Some (''tubely'' @ '','' @ ''landscape/MDEyMzQ1Njc4OWFiY2RlZjAxMjM0NTY3ODlhYmNkZWY.mp4'')\<rparr>)
   = (sample_video\<lparr>VideoURL := Some (''tubely'' @ '','' @ ''landscape/MDEyMzQ1Njc4OWFiY2RlZjAxMjM0NTY3ODlhYmNkZWY.mp4'')\<rparr>,
      Some PresignFailed)"
  by (subst dbVideoToSignedVideo_locator) (simp_all add: generatePresignedURL_def)

lemma presign_fails_run:
  "handlerUploadVideo sample_cfg (sample_env\<lparr>PresignGetObject := \<lambda>bucket key expires. None\<rparr>)
     sample_request sample_world
   = (\<lparr>files = Map.empty,
       effects =
         [TempCreated ''/tmp/tubely-upload.mp4123456'',
          FileWritten ''/tmp/tubely-upload.mp4123456'' ''mdat'',
          FileWritten ''/tmp/tubely-upload.mp4123456.processing'' ''moovmdat'',
          ObjectPut ''tubely'' ''landscape/MDEyMzQ1Njc4OWFiY2RlZjAxMjM0NTY3ODlhYmNkZWY.mp4''
            ''moovmdat'' ''video/mp4'',
          VideoUpdated (sample_video\<lparr>VideoURL :=
            Some ''tubely,landscape/MDEyMzQ1Njc4OWFiY2RlZjAxMjM0NTY3ODlhYmNkZWY.mp4''\<rparr>),
          FileRemoved ''/tmp/tubely-upload.mp4123456.processing'',
          FileRemoved ''/tmp/tubely-upload.mp4123456'']\<rparr>,
      respondWithError StatusInternalServerError ''Couldn't generate presigned URL'')"
  using presign_fails_signed
  by (subst handler_staged[OF presign_fails_checks])
     (simp add: sample_world_def run_defs sample_aspect_variant sample_env_simps sample_cfg_def)

text \<open>
  C10. There is an execution of the handler that answers 500 ``Couldn't generate presigned
  URL'' although the object has been put and the record has been updated: the call starts
  with no effects, presigning fails, and the effects of the call hold the put and the update
  (and nothing that undoes them: the only later effects remove the two local files).
\<close>

theorem presign_failure_after_upload:
  "\<exists>cfg e r w w' bucket key body contentType v.
      effects w = []
    \<and> handlerUploadVideo cfg e r w
        = (w', respondWithError StatusInternalServerError ''Couldn't generate presigned URL'')
    \<and> effects w' =
         [TempCreated ''/tmp/tubely-upload.mp4123456'',
          FileWritten ''/tmp/tubely-upload.mp4123456'' ''mdat'',
          FileWritten ''/tmp/tubely-upload.mp4123456.processing'' ''moovmdat'',
          ObjectPut bucket key body contentType,
          VideoUpdated v,
          FileRemoved ''/tmp/tubely-upload.mp4123456.processing'',
          FileRemoved ''/tmp/tubely-upload.mp4123456'']"
proof (intro exI conjI)
  show "effects sample_world = []" by (simp add: sample_world_def)
  show "handlerUploadVideo sample_cfg
          (sample_env\<lparr>PresignGetObject := \<lambda>bucket key expires. None\<rparr>)
          sample_request sample_world
        = (\<lparr>files = Map.empty,
       effects =
         [TempCreated ''/tmp/tubely-upload.mp4123456'',
          FileWritten ''/tmp/tubely-upload.mp4123456'' ''mdat'',
          FileWritten ''/tmp/tubely-upload.mp4123456.processing'' ''moovmdat'',
          ObjectPut ''tubely'' ''landscape/MDEyMzQ1Njc4OWFiY2RlZjAxMjM0NTY3ODlhYmNkZWY.mp4''
            ''moovmdat'' ''video/mp4'',
          VideoUpdated (sample_video\<lparr>VideoURL :=
            Some ''tubely,landscape/MDEyMzQ1Njc4OWFiY2RlZjAxMjM0NTY3ODlhYmNkZWY.mp4''\<rparr>),
          FileRemoved ''/tmp/tubely-upload.mp4123456.processing'',
          FileRemoved ''/tmp/tubely-upload.mp4123456'']\<rparr>,
           respondWithError StatusInternalServerError ''Couldn't generate presigned URL'')"
    by (rule presign_fails_run)
  show "effects \<lparr>files = Map.empty,
       effects =
         [TempCreated ''/tmp/tubely-upload.mp4123456'',
          FileWritten ''/tmp/tubely-upload.mp4123456'' ''mdat'',
          FileWritten ''/tmp/tubely-upload.mp4123456.processing'' ''moovmdat'',
          ObjectPut ''tubely'' ''landscape/MDEyMzQ1Njc4OWFiY2RlZjAxMjM0NTY3ODlhYmNkZWY.mp4''
            ''moovmdat'' ''video/mp4'',
          VideoUpdated (sample_video\<lparr>VideoURL :=
            Some ''tubely,landscape/MDEyMzQ1Njc4OWFiY2RlZjAxMjM0NTY3ODlhYmNkZWY.mp4''\<rparr>),
          FileRemoved ''/tmp/tubely-upload.mp4123456.processing'',
          FileRemoved ''/tmp/tubely-upload.mp4123456'']\<rparr> =
         [TempCreated ''/tmp/tubely-upload.mp4123456'',
          FileWritten ''/tmp/tubely-upload.mp4123456'' ''mdat'',
          FileWritten ''/tmp/tubely-upload.mp4123456.processing'' ''moovmdat'',
          ObjectPut ''tubely'' ''landscape/MDEyMzQ1Njc4OWFiY2RlZjAxMjM0NTY3ODlhYmNkZWY.mp4''
            ''moovmdat'' ''video/mp4'',
          VideoUpdated (sample_video\<lparr>VideoURL :=
            Some ''tubely,landscape/MDEyMzQ1Njc4OWFiY2RlZjAxMjM0NTY3ODlhYmNkZWY.mp4''\<rparr>),
          FileRemoved ''/tmp/tubely-upload.mp4123456.processing'',
          FileRemoved ''/tmp/tubely-upload.mp4123456'']"
    by simp
qed


lemma remux_aborts_checks:
  "uuid_Parse (sample_env\<lparr>ffmpeg := \<lambda>f. Aborted (Some ''moov'')\<rparr>) (PathValue_videoID sample_request) = Some 7"
  "GetBearerToken (sample_env\<lparr>ffmpeg := \<lambda>f. Aborted (Some ''moov'')\<rparr>) (Header sample_request) = Some ''alice''"
  "ValidateJWT (sample_env\<lparr>ffmpeg := \<lambda>f. Aborted (Some ''moov'')\<rparr>) ''alice'' (jwtSecret sample_cfg) = Some 1"
  "GetVideo (sample_env\<lparr>ffmpeg := \<lambda>f. Aborted (Some ''moov'')\<rparr>) 7 = Some sample_video"
  "UserID sample_video = 1"
  "ParseMultipartForm (MaxBytesReader sample_request (2 ^ 30))
     = Some [(''video'', ''mdat'', ''video/mp4'')]"
  "FormFile [(''video'', ''mdat'', ''video/mp4'')] ''video'' = Some (''mdat'', ''video/mp4'')"
  "ParseMediaType (sample_env\<lparr>ffmpeg := \<lambda>f. Aborted (Some ''moov'')\<rparr>) ''video/mp4'' = Some ''video/mp4''"
  "CreateTemp (sample_env\<lparr>ffmpeg := \<lambda>f. Aborted (Some ''moov'')\<rparr>) = Some ''/tmp/tubely-upload.mp4123456''"
  by (simp_all add: sample_env_simps sample_request_def sample_cfg_def sample_video_def
        ParseMultipartForm_limited FormFile_def)

text \<open>
  C3 fails on the code. When ffmpeg exits with an error after it has written part of its
  output, \<open>processVideoForFastStart\<close> returns the error, the handler answers 500 and
  returns before it defers the removal of the output: the staged upload is removed, the
  partial file \<open>.processing\<close> stays on disk.
\<close>

theorem remux_failure_leaves_partial_file:
  "snd (handlerUploadVideo sample_cfg (sample_env\<lparr>ffmpeg := \<lambda>f. Aborted (Some ''moov'')\<rparr>) sample_request sample_world)
     = respondWithError StatusInternalServerError ''Couldn't process video for fast start''
   \<and> files (fst (handlerUploadVideo sample_cfg (sample_env\<lparr>ffmpeg := \<lambda>f. Aborted (Some ''moov'')\<rparr>) sample_request sample_world))
       ''/tmp/tubely-upload.mp4123456.processing'' = Some ''moov''
   \<and> files (fst (handlerUploadVideo sample_cfg (sample_env\<lparr>ffmpeg := \<lambda>f. Aborted (Some ''moov'')\<rparr>) sample_request sample_world))
       ''/tmp/tubely-upload.mp4123456'' = None
   \<and> effects (fst (handlerUploadVideo sample_cfg (sample_env\<lparr>ffmpeg := \<lambda>f. Aborted (Some ''moov'')\<rparr>) sample_request sample_world))
       = [TempCreated ''/tmp/tubely-upload.mp4123456'',
          FileWritten ''/tmp/tubely-upload.mp4123456'' ''mdat'',
          FileWritten ''/tmp/tubely-upload.mp4123456.processing'' ''moov'',
          FileRemoved ''/tmp/tubely-upload.mp4123456'']"
  unfolding handler_staged[OF remux_aborts_checks]
  by (simp add: sample_world_def run_defs sample_aspect_variant sample_env_simps sample_cfg_def)

text \<open>
  What does hold of the temporary files: the staged upload never survives a call, and no
  file survives a call in which ffmpeg does not exit with an error after writing output.
\<close>

lemma staged_upload_removed:
  "fst (handlerUploadVideo cfg e r w) = w
   \<or> (\<exists>tempName. CreateTemp e = Some tempName
         \<and> files (fst (handlerUploadVideo cfg e r w)) tempName = None)"
proof (cases "fst (handlerUploadVideo cfg e r w) = w")
  case True
  then show ?thesis by simp
next
  case False
  from handler_world_changed[OF this]
  obtain videoID token v parts upload contentType tempName where
    1: "uuid_Parse e (PathValue_videoID r) = Some videoID"
    and 2: "GetBearerToken e (Header r) = Some token"
    and 3: "ValidateJWT e token (jwtSecret cfg) = Some (UserID v)"
    and 4: "GetVideo e videoID = Some v"
    and 6: "ParseMultipartForm (MaxBytesReader r (2 ^ 30)) = Some parts"
    and 7: "FormFile parts ''video'' = Some (upload, contentType)"
    and 8: "ParseMediaType e contentType = Some ''video/mp4''"
    and 9: "CreateTemp e = Some tempName"
    by blast
  have "files (fst (handlerUploadVideo cfg e r w)) tempName = None"
    unfolding handler_staged[OF 1 2 3 4 refl 6 7 8 9]
    by (simp add: Let_def os_Remove_def split: prod.splits)
  with 9 show ?thesis by blast
qed

lemma staged_no_new_file:
  assumes "\<And>f out. ffmpeg e f \<noteq> Aborted (Some out)"
  shows "dom (files (fst (handlerUploadVideo_staged cfg e v mediaType upload tempName w)))
           \<subseteq> insert tempName (dom (files w))"
proof (cases "Copy e upload")
  case (Some n)
  then show ?thesis by (simp add: handlerUploadVideo_staged_def)
next
  case None
  define w1 where "w1 = w\<lparr>files := (files w)(tempName \<mapsto> upload),
                           effects := effects w @ [FileWritten tempName upload]\<rparr>"
  have d1: "dom (files w1) = insert tempName (dom (files w))" by (simp add: w1_def)
  show ?thesis
  proof (cases "getVideoAspectRatio e w1 tempName")
    case (Inl err)
    then show ?thesis using None d1 by (simp add: handlerUploadVideo_staged_def w1_def[symmetric])
  next
    case (Inr aspectRatio)
    show ?thesis
    proof (cases "ffmpeg e (files w1 tempName)")
      case (Finished out)
      define w2 where "w2 = w1\<lparr>files := (files w1)(tempName @ ''.processing'' \<mapsto> out),
          effects := effects w1 @ [FileWritten (tempName @ ''.processing'') out]\<rparr>"
      obtain w3 resp where p:
        "handlerUploadVideo_processed cfg e v mediaType aspectRatio (tempName @ ''.processing'') w2
           = (w3, resp)"
        by (cases "handlerUploadVideo_processed cfg e v mediaType aspectRatio
                     (tempName @ ''.processing'') w2")
      have f3: "files w3 = files w2"
        using processed_files[of cfg e v mediaType aspectRatio "tempName @ ''.processing''" w2] p
        by simp
      have "handlerUploadVideo_staged cfg e v mediaType upload tempName w
              = (os_Remove (tempName @ ''.processing'') w3, resp)"
        using None Inr Finished p
        by (simp add: handlerUploadVideo_staged_def w1_def[symmetric]
              processVideoForFastStart_def Let_def w2_def[symmetric])
      then show ?thesis using d1 by (auto simp: os_Remove_def f3 w2_def split: if_splits)
    next
      case (Aborted partial)
      with assms have "partial = None" by (cases partial) auto
      then show ?thesis
        using None Inr Aborted d1
        by (simp add: handlerUploadVideo_staged_def w1_def[symmetric]
              processVideoForFastStart_def Let_def)
    qed
  qed
qed

lemma no_file_survives_completed_remux:
  assumes "\<And>f out. ffmpeg e f \<noteq> Aborted (Some out)"
  shows "dom (files (fst (handlerUploadVideo cfg e r w))) \<subseteq> dom (files w)"
proof (cases "fst (handlerUploadVideo cfg e r w) = w")
  case True
  then show ?thesis by simp
next
  case False
  from handler_world_changed[OF this]
  obtain videoID token v parts upload contentType tempName where
    1: "uuid_Parse e (PathValue_videoID r) = Some videoID"
    and 2: "GetBearerToken e (Header r) = Some token"
    and 3: "ValidateJWT e token (jwtSecret cfg) = Some (UserID v)"
    and 4: "GetVideo e videoID = Some v"
    and 6: "ParseMultipartForm (MaxBytesReader r (2 ^ 30)) = Some parts"
    and 7: "FormFile parts ''video'' = Some (upload, contentType)"
    and 8: "ParseMediaType e contentType = Some ''video/mp4''"
    and 9: "CreateTemp e = Some tempName"
    by blast
  define w1 where "w1 = w\<lparr>files := (files w)(tempName \<mapsto> []),
                           effects := effects w @ [TempCreated tempName]\<rparr>"
  have "dom (files (fst (handlerUploadVideo_staged cfg e v ''video/mp4'' upload tempName w1)))
          \<subseteq> insert tempName (dom (files w1))"
    using assms by (rule staged_no_new_file)
  then show ?thesis
    unfolding handler_staged[OF 1 2 3 4 refl 6 7 8 9]
    by (auto simp: Let_def os_Remove_def w1_def split: prod.splits if_splits)
       (meson domI domIff insertE subsetD)
qed

section \<open>The claim about the orientation\<close>

lemma float64_thresholds:
  "float64 (17 / 10) = 7656119366529843 / 2 ^ 52"
  "float64 (9 / 5) = 8106479329266893 / 2 ^ 52"
  "float64 (11 / 20) = 4953959590107546 / 2 ^ 53"
  "float64 (29 / 50) = 5224175567749775 / 2 ^ 53"
  using float64_17 float64_18 float64_055 float64_058 by simp_all

text \<open>
  C1. The width and the height of a stream are 32 bit integers in what ffprobe prints, so
  these are the dimensions a probed video can have. For every probed video whose first stream
  has nonzero width and height in that range, with \<open>r\<close> the exact ratio of width to height:
  the answer is \<open>16:9\<close> (prefix \<open>landscape\<close>) exactly when \<open>1.7 \<le> r \<le> 1.8\<close>, it is
  \<open>9:16\<close> (prefix \<open>portrait\<close>) exactly when \<open>0.55 \<le> r \<le> 0.58\<close>, and it is \<open>other\<close>
  (prefix \<open>other\<close>) exactly when \<open>r\<close> is in neither band. The comparisons of the code are
  in binary64; on these dimensions they decide as the comparisons of the exact ratio do.
\<close>

theorem aspect_classification:
  assumes "ffprobe e (files w filePath) = Some stdout"
    and "json_Unmarshal e stdout = Some (s # rest)"
    and "Width s \<noteq> 0" "Height s \<noteq> 0"
    and "- (2 ^ 31) \<le> Width s" "Width s < 2 ^ 31"
    and "- (2 ^ 31) \<le> Height s" "Height s < 2 ^ 31"
  shows "(getVideoAspectRatio e w filePath = Inr ''16:9'' \<longleftrightarrow>
            (17 / 10 :: rat) \<le> of_int (Width s) / of_int (Height s)
          \<and> of_int (Width s) / of_int (Height s) \<le> (18 / 10 :: rat))
       \<and> (getVideoAspectRatio e w filePath = Inr ''9:16'' \<longleftrightarrow>
            (55 / 100 :: rat) \<le> of_int (Width s) / of_int (Height s)
          \<and> of_int (Width s) / of_int (Height s) \<le> (58 / 100 :: rat))
       \<and> (getVideoAspectRatio e w filePath = Inr ''other'' \<longleftrightarrow>
            \<not> ((17 / 10 :: rat) \<le> of_int (Width s) / of_int (Height s)
               \<and> of_int (Width s) / of_int (Height s) \<le> (18 / 10 :: rat))
          \<and> \<not> ((55 / 100 :: rat) \<le> of_int (Width s) / of_int (Height s)
               \<and> of_int (Width s) / of_int (Height s) \<le> (58 / 100 :: rat)))
       \<and> keyPrefix ''16:9'' = ''landscape''
       \<and> keyPrefix ''9:16'' = ''portrait''
       \<and> keyPrefix ''other'' = ''other''"
proof -
  define q :: rat where "q = of_int (Width s) / of_int (Height s)"
  have "getVideoAspectRatio e w filePath =
          Inr (if 17 / 10 \<le> q \<and> q \<le> 18 / 10 then ''16:9''
               else if 55 / 100 \<le> q \<and> q \<le> 58 / 100 then ''9:16''
               else ''other'')"
    unfolding q_def
  proof (rule getVideoAspectRatio_exact[OF assms(1,2,3,4)])
    have "\<bar>Width s\<bar> \<le> 2 ^ 31" using assms(5,6) by simp
    also have "(2 ^ 31 :: int) \<le> 2 ^ 48" by simp
    finally show "\<bar>Width s\<bar> \<le> 2 ^ 48" .
    have "\<bar>Height s\<bar> \<le> 2 ^ 31" using assms(7,8) by simp
    also have "(2 ^ 31 :: int) \<le> 2 ^ 48" by simp
    finally show "\<bar>Height s\<bar> \<le> 2 ^ 48" .
  qed
  then have "(getVideoAspectRatio e w filePath = Inr ''16:9'' \<longleftrightarrow> 17 / 10 \<le> q \<and> q \<le> 18 / 10)
       \<and> (getVideoAspectRatio e w filePath = Inr ''9:16'' \<longleftrightarrow> 55 / 100 \<le> q \<and> q \<le> 58 / 100)
       \<and> (getVideoAspectRatio e w filePath = Inr ''other'' \<longleftrightarrow>
            \<not> (17 / 10 \<le> q \<and> q \<le> 18 / 10) \<and> \<not> (55 / 100 \<le> q \<and> q \<le> 58 / 100))"
    by auto
  then show ?thesis unfolding q_def by (simp add: keyPrefix_def)
qed

theorem aspect_classification_witness:
  "getVideoAspectRatio (sample_env\<lparr>json_Unmarshal := \<lambda>out. Some [\<lparr>Width = 17, Height = 10\<rparr>]\<rparr>)
       \<lparr>files = [''/tmp/v'' \<mapsto> ''mdat''], effects = []\<rparr> ''/tmp/v'' = Inr ''16:9''
   \<and> getVideoAspectRatio (sample_env\<lparr>json_Unmarshal := \<lambda>out. Some [\<lparr>Width = 18, Height = 10\<rparr>]\<rparr>)
       \<lparr>files = [''/tmp/v'' \<mapsto> ''mdat''], effects = []\<rparr> ''/tmp/v'' = Inr ''16:9''
   \<and> getVideoAspectRatio (sample_env\<lparr>json_Unmarshal := \<lambda>out. Some [\<lparr>Width = 549999, Height = 1000000\<rparr>]\<rparr>)
       \<lparr>files = [''/tmp/v'' \<mapsto> ''mdat''], effects = []\<rparr> ''/tmp/v'' = Inr ''other''
   \<and> getVideoAspectRatio (sample_env\<lparr>json_Unmarshal := \<lambda>out. Some [\<lparr>Width = 1280, Height = 720\<rparr>]\<rparr>)
       \<lparr>files = [''/tmp/v'' \<mapsto> ''mdat''], effects = []\<rparr> ''/tmp/v'' = Inr ''16:9''
   \<and> getVideoAspectRatio (sample_env\<lparr>json_Unmarshal := \<lambda>out. Some [\<lparr>Width = 720, Height = 1280\<rparr>]\<rparr>)
       \<lparr>files = [''/tmp/v'' \<mapsto> ''mdat''], effects = []\<rparr> ''/tmp/v'' = Inr ''9:16''
   \<and> getVideoAspectRatio (sample_env\<lparr>json_Unmarshal := \<lambda>out. Some [\<lparr>Width = - 17, Height = - 10\<rparr>]\<rparr>)
       \<lparr>files = [''/tmp/v'' \<mapsto> ''mdat''], effects = []\<rparr> ''/tmp/v'' = Inr ''16:9''"
proof -
  have 1: "getVideoAspectRatio (sample_env\<lparr>json_Unmarshal := \<lambda>out. Some [\<lparr>Width = 17, Height = 10\<rparr>]\<rparr>)
       \<lparr>files = [''/tmp/v'' \<mapsto> ''mdat''], effects = []\<rparr> ''/tmp/v'' = Inr ''16:9''"
    using aspect_classification[where e = "sample_env\<lparr>json_Unmarshal := \<lambda>out. Some [\<lparr>Width = 17, Height = 10\<rparr>]\<rparr>"
        and w = "\<lparr>files = [''/tmp/v'' \<mapsto> ''mdat''], effects = []\<rparr>" and filePath = "''/tmp/v''"
        and s = "\<lparr>Width = 17, Height = 10\<rparr>" and rest = "[]" and stdout = "''1280x720''"]
    by (simp add: sample_env_simps)
  have 2: "getVideoAspectRatio (sample_env\<lparr>json_Unmarshal := \<lambda>out. Some [\<lparr>Width = 18, Height = 10\<rparr>]\<rparr>)
       \<lparr>files = [''/tmp/v'' \<mapsto> ''mdat''], effects = []\<rparr> ''/tmp/v'' = Inr ''16:9''"
    using aspect_classification[where e = "sample_env\<lparr>json_Unmarshal := \<lambda>out. Some [\<lparr>Width = 18, Height = 10\<rparr>]\<rparr>"
        and w = "\<lparr>files = [''/tmp/v'' \<mapsto> ''mdat''], effects = []\<rparr>" and filePath = "''/tmp/v''"
        and s = "\<lparr>Width = 18, Height = 10\<rparr>" and rest = "[]" and stdout = "''1280x720''"]
    by (simp add: sample_env_simps)
  have 3: "getVideoAspectRatio (sample_env\<lparr>json_Unmarshal := \<lambda>out. Some [\<lparr>Width = 549999, Height = 1000000\<rparr>]\<rparr>)
       \<lparr>files = [''/tmp/v'' \<mapsto> ''mdat''], effects = []\<rparr> ''/tmp/v'' = Inr ''other''"
    using aspect_classification[where e = "sample_env\<lparr>json_Unmarshal := \<lambda>out. Some [\<lparr>Width = 549999, Height = 1000000\<rparr>]\<rparr>"
        and w = "\<lparr>files = [''/tmp/v'' \<mapsto> ''mdat''], effects = []\<rparr>" and filePath = "''/tmp/v''"
        and s = "\<lparr>Width = 549999, Height = 1000000\<rparr>" and rest = "[]" and stdout = "''1280x720''"]
    by (simp add: sample_env_simps)
  have 4: "getVideoAspectRatio (sample_env\<lparr>json_Unmarshal := \<lambda>out. Some [\<lparr>Width = 1280, Height = 720\<rparr>]\<rparr>)
       \<lparr>files = [''/tmp/v'' \<mapsto> ''mdat''], effects = []\<rparr> ''/tmp/v'' = Inr ''16:9''"
    using aspect_classification[where e = "sample_env\<lparr>json_Unmarshal := \<lambda>out. Some [\<lparr>Width = 1280, Height = 720\<rparr>]\<rparr>"
        and w = "\<lparr>files = [''/tmp/v'' \<mapsto> ''mdat''], effects = []\<rparr>" and filePath = "''/tmp/v''"
        and s = "\<lparr>Width = 1280, Height = 720\<rparr>" and rest = "[]" and stdout = "''1280x720''"]
    by (simp add: sample_env_simps)
  have 5: "getVideoAspectRatio (sample_env\<lparr>json_Unmarshal := \<lambda>out. Some [\<lparr>Width = 720, Height = 1280\<rparr>]\<rparr>)
       \<lparr>files = [''/tmp/v'' \<mapsto> ''mdat''], effects = []\<rparr> ''/tmp/v'' = Inr ''9:16''"
    using aspect_classification[where e = "sample_env\<lparr>json_Unmarshal := \<lambda>out. Some [\<lparr>Width = 720, Height = 1280\<rparr>]\<rparr>"
        and w = "\<lparr>files = [''/tmp/v'' \<mapsto> ''mdat''], effects = []\<rparr>" and filePath = "''/tmp/v''"
        and s = "\<lparr>Width = 720, Height = 1280\<rparr>" and rest = "[]" and stdout = "''1280x720''"]
    by (simp add: sample_env_simps)
  have 6: "getVideoAspectRatio (sample_env\<lparr>json_Unmarshal := \<lambda>out. Some [\<lparr>Width = - 17, Height = - 10\<rparr>]\<rparr>)
       \<lparr>files = [''/tmp/v'' \<mapsto> ''mdat''], effects = []\<rparr> ''/tmp/v'' = Inr ''16:9''"
    using aspect_classification[where e = "sample_env\<lparr>json_Unmarshal := \<lambda>out. Some [\<lparr>Width = - 17, Height = - 10\<rparr>]\<rparr>"
        and w = "\<lparr>files = [''/tmp/v'' \<mapsto> ''mdat''], effects = []\<rparr>" and filePath = "''/tmp/v''"
        and s = "\<lparr>Width = - 17, Height = - 10\<rparr>" and rest = "[]" and stdout = "''1280x720''"]
    by (simp add: sample_env_simps)
  show ?thesis using 1 2 3 4 5 6 by simp
qed

text \<open>
  The bound on the dimensions is needed. For width 7656119366529843 and height
  4503599627370496, which no stream has, the exact ratio is below 1.7, but both conversions
  and the division are exact in binary64 and the quotient is the binary64 value nearest to
  1.7, which is what the constant \<open>1.7\<close> denotes: the answer is \<open>16:9\<close>.
\<close>

lemma binary64_quotient_beyond_the_domain:
  "getVideoAspectRatio
     (sample_env\<lparr>json_Unmarshal :=
        \<lambda>out. Some [\<lparr>Width = 7656119366529843, Height = 4503599627370496\<rparr>]\<rparr>)
     \<lparr>files = [''/tmp/v'' \<mapsto> ''mdat''], effects = []\<rparr> ''/tmp/v'' = Inr ''16:9''
   \<and> \<not> ((17 / 10 :: rat) \<le> 7656119366529843 / 4503599627370496)"
proof -
  have a: "float64 7656119366529843 = 7656119366529843"
    using float64_of_int[of 7656119366529843] by simp
  have b: "float64 4503599627370496 = 4503599627370496"
    using float64_of_int[of 4503599627370496] by simp
  have c: "float64 (7656119366529843 / 4503599627370496) = 7656119366529843 / 4503599627370496"
    using float64_exact_pos[of 7656119366529843 "- 52"] by (simp add: power_int_minus field_simps)
  show ?thesis
    by (simp add: getVideoAspectRatio_def sample_env_simps a b c float64_thresholds)
qed

section \<open>The order of the validation steps\<close>

text \<open>
  C8. The handler validates in the order: video id, authentication (bearer token, then its
  validation), record fetch, ownership check, body parse. A step that fails decides the
  answer whatever the later steps would have done, and the world is then as it was. The world
  changes (a file is staged) only in a call whose ownership check and body parse have
  passed.
\<close>

theorem validation_order:
  "(uuid_Parse e (PathValue_videoID r) = None \<longrightarrow>
      handlerUploadVideo cfg e r w = (w, respondWithError StatusBadRequest ''Invalid video ID''))
   \<and> (\<forall>videoID. uuid_Parse e (PathValue_videoID r) = Some videoID \<longrightarrow>
        (GetBearerToken e (Header r) = None \<longrightarrow>
           handlerUploadVideo cfg e r w =
             (w, respondWithError StatusUnauthorized ''Couldn't find JWT''))
      \<and> (\<forall>token. GetBearerToken e (Header r) = Some token \<longrightarrow>
           (ValidateJWT e token (jwtSecret cfg) = None \<longrightarrow>
              handlerUploadVideo cfg e r w =
                (w, respondWithError StatusUnauthorized ''Couldn't validate JWT''))
         \<and> (\<forall>userID. ValidateJWT e token (jwtSecret cfg) = Some userID \<longrightarrow>
              (GetVideo e videoID = None \<longrightarrow>
                 handlerUploadVideo cfg e r w =
                   (w, respondWithError StatusInternalServerError ''Couldn't get video''))
            \<and> (\<forall>v. GetVideo e videoID = Some v \<longrightarrow>
                 (UserID v \<noteq> userID \<longrightarrow>
                    handlerUploadVideo cfg e r w =
                      (w, respondWithError StatusUnauthorized
                            ''User not authorized to update this video''))
               \<and> (UserID v = userID
                    \<and> ParseMultipartForm (MaxBytesReader r (2 ^ 30)) = None \<longrightarrow>
                    handlerUploadVideo cfg e r w =
                      (w, respondWithError StatusBadRequest ''Couldn't parse form''))))))
   \<and> (fst (handlerUploadVideo cfg e r w) \<noteq> w \<longrightarrow>
        (\<exists>videoID token v parts.
            uuid_Parse e (PathValue_videoID r) = Some videoID
          \<and> GetBearerToken e (Header r) = Some token
          \<and> ValidateJWT e token (jwtSecret cfg) = Some (UserID v)
          \<and> GetVideo e videoID = Some v
          \<and> ParseMultipartForm (MaxBytesReader r (2 ^ 30)) = Some parts))"
proof (intro conjI allI impI)
  assume "fst (handlerUploadVideo cfg e r w) \<noteq> w"
  from handler_world_changed[OF this]
  show "\<exists>videoID token v parts.
            uuid_Parse e (PathValue_videoID r) = Some videoID
          \<and> GetBearerToken e (Header r) = Some token
          \<and> ValidateJWT e token (jwtSecret cfg) = Some (UserID v)
          \<and> GetVideo e videoID = Some v
          \<and> ParseMultipartForm (MaxBytesReader r (2 ^ 30)) = Some parts"
    by blast
qed (simp_all add: handler_bad_id handler_no_token handler_bad_token handler_no_record
      handler_not_owner handler_bad_form)

theorem validation_order_witness:
  "handlerUploadVideo sample_cfg sample_env
     (sample_request\<lparr>PathValue_videoID := ''seven'', Header := []\<rparr>) sample_world
     = (sample_world, respondWithError StatusBadRequest ''Invalid video ID'')
   \<and> handlerUploadVideo sample_cfg sample_env
     (sample_request\<lparr>Header := [], bodyLength := 2 ^ 30 + 1, formLength := 2 ^ 30 + 1\<rparr>) sample_world
     = (sample_world, respondWithError StatusUnauthorized ''Couldn't find JWT'')
   \<and> handlerUploadVideo sample_cfg sample_env
     (sample_request\<lparr>Header := [(''Authorization'', ''Bearer eve'')]\<rparr>) sample_world
     = (sample_world, respondWithError StatusUnauthorized ''Couldn't validate JWT'')
   \<and> handlerUploadVideo sample_cfg (sample_env\<lparr>GetVideo := \<lambda>videoID. None\<rparr>)
     (sample_request\<lparr>Header := [(''Authorization'', ''Bearer bob'')]\<rparr>) sample_world
     = (sample_world, respondWithError StatusInternalServerError ''Couldn't get video'')
   \<and> handlerUploadVideo sample_cfg sample_env
     (sample_request\<lparr>Header := [(''Authorization'', ''Bearer bob'')],
        bodyLength := 2 ^ 30 + 1, formLength := 2 ^ 30 + 1\<rparr>) sample_world
     = (sample_world,
        respondWithError StatusUnauthorized ''User not authorized to update this video'')
   \<and> handlerUploadVideo sample_cfg sample_env
     (sample_request\<lparr>bodyLength := 2 ^ 30 + 1, formLength := 2 ^ 30 + 1\<rparr>) sample_world
     = (sample_world, respondWithError StatusBadRequest ''Couldn't parse form'')
   \<and> fst (handlerUploadVideo sample_cfg sample_env sample_request sample_world) \<noteq> sample_world
   \<and> (\<exists>videoID token v parts.
            uuid_Parse sample_env (PathValue_videoID sample_request) = Some videoID
          \<and> GetBearerToken sample_env (Header sample_request) = Some token
          \<and> ValidateJWT sample_env token (jwtSecret sample_cfg) = Some (UserID v)
          \<and> GetVideo sample_env videoID = Some v
          \<and> ParseMultipartForm (MaxBytesReader sample_request (2 ^ 30)) = Some parts)"
proof -
  have p1:
      "uuid_Parse (sample_env) (PathValue_videoID (sample_request\<lparr>PathValue_videoID := ''seven'', Header := []\<rparr>)) = None"
    by (simp_all add: sample_defs ParseMultipartForm_limited)
  have 1: "handlerUploadVideo sample_cfg (sample_env) (sample_request\<lparr>PathValue_videoID := ''seven'', Header := []\<rparr>) sample_world
             = (sample_world, respondWithError StatusBadRequest ''Invalid video ID'')"
    using validation_order[where e = "sample_env" and cfg = sample_cfg and w = sample_world
        and r = "sample_request\<lparr>PathValue_videoID := ''seven'', Header := []\<rparr>"] p1
    by simp
  have p2:
      "uuid_Parse (sample_env) (PathValue_videoID (sample_request\<lparr>Header := [], bodyLength := 2 ^ 30 + 1, formLength := 2 ^ 30 + 1\<rparr>)) = Some 7"
      "GetBearerToken (sample_env) (Header (sample_request\<lparr>Header := [], bodyLength := 2 ^ 30 + 1, formLength := 2 ^ 30 + 1\<rparr>)) = None"
    by (simp_all add: sample_defs ParseMultipartForm_limited)
  have 2: "handlerUploadVideo sample_cfg (sample_env) (sample_request\<lparr>Header := [], bodyLength := 2 ^ 30 + 1, formLength := 2 ^ 30 + 1\<rparr>) sample_world
             = (sample_world, respondWithError StatusUnauthorized ''Couldn't find JWT'')"
    using validation_order[where e = "sample_env" and cfg = sample_cfg and w = sample_world
        and r = "sample_request\<lparr>Header := [], bodyLength := 2 ^ 30 + 1, formLength := 2 ^ 30 + 1\<rparr>"] p2
    by simp
  have p3:
      "uuid_Parse (sample_env) (PathValue_videoID (sample_request\<lparr>Header := [(''Authorization'', ''Bearer eve'')]\<rparr>)) = Some 7"
      "GetBearerToken (sample_env) (Header (sample_request\<lparr>Header := [(''Authorization'', ''Bearer eve'')]\<rparr>)) = Some ''eve''"
      "ValidateJWT (sample_env) ''eve'' (jwtSecret sample_cfg) = None"
    by (simp_all add: sample_defs ParseMultipartForm_limited)
  have 3: "handlerUploadVideo sample_cfg (sample_env) (sample_request\<lparr>Header := [(''Authorization'', ''Bearer eve'')]\<rparr>) sample_world
             = (sample_world, respondWithError StatusUnauthorized ''Couldn't validate JWT'')"
    using validation_order[where e = "sample_env" and cfg = sample_cfg and w = sample_world
        and r = "sample_request\<lparr>Header := [(''Authorization'', ''Bearer eve'')]\<rparr>"] p3
    by simp
  have p4:
      "uuid_Parse (sample_env\<lparr>GetVideo := \<lambda>videoID. None\<rparr>) (PathValue_videoID (sample_request\<lparr>Header := [(''Authorization'', ''Bearer bob'')]\<rparr>)) = Some 7"
      "GetBearerToken (sample_env\<lparr>GetVideo := \<lambda>videoID. None\<rparr>) (Header (sample_request\<lparr>Header := [(''Authorization'', ''Bearer bob'')]\<rparr>)) = Some ''bob''"
      "ValidateJWT (sample_env\<lparr>GetVideo := \<lambda>videoID. None\<rparr>) ''bob'' (jwtSecret sample_cfg) = Some 2"
      "GetVideo (sample_env\<lparr>GetVideo := \<lambda>videoID. None\<rparr>) 7 = None"
    by (simp_all add: sample_defs ParseMultipartForm_limited)
  have 4: "handlerUploadVideo sample_cfg (sample_env\<lparr>GetVideo := \<lambda>videoID. None\<rparr>) (sample_request\<lparr>Header := [(''Authorization'', ''Bearer bob'')]\<rparr>) sample_world
             = (sample_world, respondWithError StatusInternalServerError ''Couldn't get video'')"
    using validation_order[where e = "sample_env\<lparr>GetVideo := \<lambda>videoID. None\<rparr>" and cfg = sample_cfg and w = sample_world
        and r = "sample_request\<lparr>Header := [(''Authorization'', ''Bearer bob'')]\<rparr>"] p4
    by simp
  have p5:
      "uuid_Parse (sample_env) (PathValue_videoID (sample_request\<lparr>Header := [(''Authorization'', ''Bearer bob'')], bodyLength := 2 ^ 30 + 1, formLength := 2 ^ 30 + 1\<rparr>)) = Some 7"
      "GetBearerToken (sample_env) (Header (sample_request\<lparr>Header := [(''Authorization'', ''Bearer bob'')], bodyLength := 2 ^ 30 + 1, formLength := 2 ^ 30 + 1\<rparr>)) = Some ''bob''"
      "ValidateJWT (sample_env) ''bob'' (jwtSecret sample_cfg) = Some 2"
      "GetVideo (sample_env) 7 = Some sample_video"
      "UserID sample_video \<noteq> 2"
    by (simp_all add: sample_defs ParseMultipartForm_limited)
  have 5: "handlerUploadVideo sample_cfg (sample_env) (sample_request\<lparr>Header := [(''Authorization'', ''Bearer bob'')], bodyLength := 2 ^ 30 + 1, formLength := 2 ^ 30 + 1\<rparr>) sample_world
             = (sample_world, respondWithError StatusUnauthorized ''User not authorized to update this video'')"
    using validation_order[where e = "sample_env" and cfg = sample_cfg and w = sample_world
        and r = "sample_request\<lparr>Header := [(''Authorization'', ''Bearer bob'')], bodyLength := 2 ^ 30 + 1, formLength := 2 ^ 30 + 1\<rparr>"] p5
    by simp
  have p6:
      "uuid_Parse sample_env (PathValue_videoID (sample_request\<lparr>bodyLength := 2 ^ 30 + 1, formLength := 2 ^ 30 + 1\<rparr>)) = Some 7"
      "GetBearerToken sample_env (Header (sample_request\<lparr>bodyLength := 2 ^ 30 + 1, formLength := 2 ^ 30 + 1\<rparr>)) = Some ''alice''"
      "ValidateJWT sample_env ''alice'' (jwtSecret sample_cfg) = Some 1"
      "GetVideo sample_env 7 = Some sample_video"
      "UserID sample_video = 1"
      "ParseMultipartForm (MaxBytesReader (sample_request\<lparr>bodyLength := 2 ^ 30 + 1, formLength := 2 ^ 30 + 1\<rparr>) (2 ^ 30)) = None"
    by (simp_all add: sample_defs ParseMultipartForm_limited)
  have 6: "handlerUploadVideo sample_cfg (sample_env) (sample_request\<lparr>bodyLength := 2 ^ 30 + 1, formLength := 2 ^ 30 + 1\<rparr>) sample_world
             = (sample_world, respondWithError StatusBadRequest ''Couldn't parse form'')"
    using validation_order[where e = "sample_env" and cfg = sample_cfg and w = sample_world
        and r = "sample_request\<lparr>bodyLength := 2 ^ 30 + 1, formLength := 2 ^ 30 + 1\<rparr>"] p6
    by simp
  have 7: "fst (handlerUploadVideo sample_cfg sample_env sample_request sample_world)
             \<noteq> sample_world"
    unfolding sample_run by (simp add: sample_world_def)
  have 8: "(\<exists>videoID token v parts.
            uuid_Parse sample_env (PathValue_videoID sample_request) = Some videoID
          \<and> GetBearerToken sample_env (Header sample_request) = Some token
          \<and> ValidateJWT sample_env token (jwtSecret sample_cfg) = Some (UserID v)
          \<and> GetVideo sample_env videoID = Some v
          \<and> ParseMultipartForm (MaxBytesReader sample_request (2 ^ 30)) = Some parts)"
    using validation_order[where e = sample_env and cfg = sample_cfg and w = sample_world
        and r = sample_request, THEN conjunct2, THEN conjunct2] 7
    by (rule mp)
  show ?thesis using 1 2 3 4 5 6 7 8 by simp
qed

section \<open>The claim about the size bound\<close>

lemma handler_reads:
  assumes "PathValue_videoID r = PathValue_videoID r'"
    and "Header r = Header r'"
    and "ParseMultipartForm (MaxBytesReader r (2 ^ 30))
           = ParseMultipartForm (MaxBytesReader r' (2 ^ 30))"
  shows "handlerUploadVideo cfg e r w = handlerUploadVideo cfg e r' w"
  unfolding handlerUploadVideo_def Let_def MaxBytesReader_simps(1,2) assms
  by (rule refl)

lemma handler_ignores_bodyLength:
  "handlerUploadVideo cfg e (r\<lparr>bodyLength := n\<rparr>) w = handlerUploadVideo cfg e r w"
  by (rule handler_reads) (simp_all add: ParseMultipartForm_limited)

lemma oversize_form_checks:
  "uuid_Parse sample_env (PathValue_videoID (sample_request\<lparr>bodyLength := 2 ^ 30 + 1, formLength := 2 ^ 30 + 1\<rparr>)) = Some 7"
  "GetBearerToken sample_env (Header (sample_request\<lparr>bodyLength := 2 ^ 30 + 1, formLength := 2 ^ 30 + 1\<rparr>)) = Some ''alice''"
  "ValidateJWT sample_env ''alice'' (jwtSecret sample_cfg) = Some 1"
  "GetVideo sample_env 7 = Some sample_video"
  "UserID sample_video = 1"
  "ParseMultipartForm (MaxBytesReader (sample_request\<lparr>bodyLength := 2 ^ 30 + 1, formLength := 2 ^ 30 + 1\<rparr>) (2 ^ 30)) = None"
  by (simp_all add: sample_env_simps sample_request_def sample_cfg_def sample_video_def
        ParseMultipartForm_limited)

text \<open>
  C7, as the claim states it, fails, in two ways. A request whose form is one byte longer
  than 1 GiB is answered with status 400 (Bad Request), not 413 (Payload Too Large). And a
  request whose body is 2 GiB long, but whose form ends within the first 4096 bytes, is not
  rejected at all: the bytes after the closing boundary are never read, the upload is
  staged and the answer is 200.
\<close>

theorem oversize_gets_400_or_is_accepted:
  "2 ^ 30 < bodyLength (sample_request\<lparr>bodyLength := 2 ^ 30 + 1, formLength := 2 ^ 30 + 1\<rparr>)
   \<and> formLength (sample_request\<lparr>bodyLength := 2 ^ 30 + 1, formLength := 2 ^ 30 + 1\<rparr>) \<le> bodyLength (sample_request\<lparr>bodyLength := 2 ^ 30 + 1, formLength := 2 ^ 30 + 1\<rparr>)
   \<and> handlerUploadVideo sample_cfg sample_env (sample_request\<lparr>bodyLength := 2 ^ 30 + 1, formLength := 2 ^ 30 + 1\<rparr>) sample_world
       = (sample_world, respondWithError StatusBadRequest ''Couldn't parse form'')
   \<and> statusCode (snd (handlerUploadVideo sample_cfg sample_env (sample_request\<lparr>bodyLength := 2 ^ 30 + 1, formLength := 2 ^ 30 + 1\<rparr>) sample_world))
       \<noteq> StatusRequestEntityTooLarge
   \<and> 2 ^ 30 < bodyLength (sample_request\<lparr>bodyLength := 2 ^ 31\<rparr>)
   \<and> formLength (sample_request\<lparr>bodyLength := 2 ^ 31\<rparr>) \<le> bodyLength (sample_request\<lparr>bodyLength := 2 ^ 31\<rparr>)
   \<and> snd (handlerUploadVideo sample_cfg sample_env (sample_request\<lparr>bodyLength := 2 ^ 31\<rparr>) sample_world)
       = respondWithJSON StatusOK (sample_video\<lparr>VideoURL :=
           Some ''https://tubely.s3.amazonaws.com/landscape/MDEyMzQ1Njc4OWFiY2RlZjAxMjM0NTY3ODlhYmNkZWY.mp4?X-Amz-Expires=3600''\<rparr>)
   \<and> effects (fst (handlerUploadVideo sample_cfg sample_env (sample_request\<lparr>bodyLength := 2 ^ 31\<rparr>) sample_world))
       = [TempCreated ''/tmp/tubely-upload.mp4123456'',
          FileWritten ''/tmp/tubely-upload.mp4123456'' ''mdat'',
          FileWritten ''/tmp/tubely-upload.mp4123456.processing'' ''moovmdat'',
          ObjectPut ''tubely'' ''landscape/MDEyMzQ1Njc4OWFiY2RlZjAxMjM0NTY3ODlhYmNkZWY.mp4''
            ''moovmdat'' ''video/mp4'',
          VideoUpdated (sample_video\<lparr>VideoURL :=
            Some ''tubely,landscape/MDEyMzQ1Njc4OWFiY2RlZjAxMjM0NTY3ODlhYmNkZWY.mp4''\<rparr>),
          FileRemoved ''/tmp/tubely-upload.mp4123456.processing'',
          FileRemoved ''/tmp/tubely-upload.mp4123456'']"
proof -
  have a: "handlerUploadVideo sample_cfg sample_env (sample_request\<lparr>bodyLength := 2 ^ 30 + 1, formLength := 2 ^ 30 + 1\<rparr>) sample_world
       = (sample_world, respondWithError StatusBadRequest ''Couldn't parse form'')"
    by (rule handler_bad_form[OF oversize_form_checks])
  have b: "handlerUploadVideo sample_cfg sample_env (sample_request\<lparr>bodyLength := 2 ^ 31\<rparr>) sample_world
       = handlerUploadVideo sample_cfg sample_env sample_request sample_world"
    by (rule handler_ignores_bodyLength)
  have c: "2 ^ 30 < bodyLength (sample_request\<lparr>bodyLength := 2 ^ 30 + 1, formLength := 2 ^ 30 + 1\<rparr>)" "formLength (sample_request\<lparr>bodyLength := 2 ^ 30 + 1, formLength := 2 ^ 30 + 1\<rparr>) \<le> bodyLength (sample_request\<lparr>bodyLength := 2 ^ 30 + 1, formLength := 2 ^ 30 + 1\<rparr>)"
    "2 ^ 30 < bodyLength (sample_request\<lparr>bodyLength := 2 ^ 31\<rparr>)" "formLength (sample_request\<lparr>bodyLength := 2 ^ 31\<rparr>) \<le> bodyLength (sample_request\<lparr>bodyLength := 2 ^ 31\<rparr>)"
    by (simp_all add: sample_request_def)
  show ?thesis unfolding a b sample_run using c by simp
qed

text \<open>
  C7, amended. The bound is on what the handler reads. For every request whose form (the
  bytes of the body that the multipart reader reads) is longer than 1 GiB, the
  handler answers with an error and leaves the world as it was: no temporary file is created,
  nothing is written. When the request has passed the checks before the body is read (video
  id, credentials, record, ownership), the answer is 400 Bad Request ``Couldn't parse
  form''. The length of the body as a whole decides nothing: the call is the same whatever
  follows the form.
\<close>

theorem oversize_form_rejected:
  assumes "2 ^ 30 < formLength r"
  shows "fst (handlerUploadVideo cfg e r w) = w
       \<and> (\<exists>code msg. snd (handlerUploadVideo cfg e r w) = respondWithError code msg)
       \<and> (\<forall>videoID token v.
             uuid_Parse e (PathValue_videoID r) = Some videoID
           \<and> GetBearerToken e (Header r) = Some token
           \<and> ValidateJWT e token (jwtSecret cfg) = Some (UserID v)
           \<and> GetVideo e videoID = Some v \<longrightarrow>
             snd (handlerUploadVideo cfg e r w) =
               respondWithError StatusBadRequest ''Couldn't parse form'')
       \<and> (\<forall>n. handlerUploadVideo cfg e (r\<lparr>bodyLength := n\<rparr>) w
                = handlerUploadVideo cfg e r w)"
proof -
  have none: "ParseMultipartForm (MaxBytesReader r (2 ^ 30)) = None"
    using assms by (simp add: ParseMultipartForm_limited)
  from handler_unparsed_form[OF this, of cfg e w]
  have a: "fst (handlerUploadVideo cfg e r w) = w"
    and b: "\<exists>code msg. snd (handlerUploadVideo cfg e r w) = respondWithError code msg"
    by auto
  have c: "snd (handlerUploadVideo cfg e r w) =
             respondWithError StatusBadRequest ''Couldn't parse form''"
    if "uuid_Parse e (PathValue_videoID r) = Some videoID"
      "GetBearerToken e (Header r) = Some token"
      "ValidateJWT e token (jwtSecret cfg) = Some (UserID v)"
      "GetVideo e videoID = Some v" for videoID token v
    using handler_bad_form[OF that refl none, of w] by simp
  from a b c handler_ignores_bodyLength[where cfg = cfg and e = e and r = r and w = w]
  show ?thesis by blast
qed

theorem oversize_form_rejected_witness:
  "2 ^ 30 < formLength (sample_request\<lparr>bodyLength := 2 ^ 30 + 1, formLength := 2 ^ 30 + 1\<rparr>)
   \<and> fst (handlerUploadVideo sample_cfg sample_env (sample_request\<lparr>bodyLength := 2 ^ 30 + 1, formLength := 2 ^ 30 + 1\<rparr>) sample_world) = sample_world
   \<and> snd (handlerUploadVideo sample_cfg sample_env (sample_request\<lparr>bodyLength := 2 ^ 30 + 1, formLength := 2 ^ 30 + 1\<rparr>) sample_world)
       = respondWithError StatusBadRequest ''Couldn't parse form''
   \<and> handlerUploadVideo sample_cfg sample_env ((sample_request\<lparr>bodyLength := 2 ^ 30 + 1, formLength := 2 ^ 30 + 1\<rparr>)\<lparr>bodyLength := 2 ^ 32\<rparr>) sample_world
       = handlerUploadVideo sample_cfg sample_env (sample_request\<lparr>bodyLength := 2 ^ 30 + 1, formLength := 2 ^ 30 + 1\<rparr>) sample_world"
proof -
  have l: "2 ^ 30 < formLength (sample_request\<lparr>bodyLength := 2 ^ 30 + 1, formLength := 2 ^ 30 + 1\<rparr>)"
    by simp
  show ?thesis
    using oversize_form_rejected[OF l, of sample_cfg sample_env sample_world]
      oversize_form_checks(1-5) l
    by (simp del: One_nat_def)
qed

end
